theory Spec2Isabelle
  imports Complex_Main
begin

section \<open>Numerical core of the ice-sheet and doubly-nonlinear obstacle solvers\<close>

text \<open>
  A shallow embedding of the residual routines of \<^verbatim>\<open>c/ch11/ice.c\<close> (time-dependent,
  periodic grid) and \<^verbatim>\<open>c/ch12/dnl.c\<close> (steady, zero Dirichlet boundary), with the flux
  model and the Q1 interpolation helpers they call.

  Conventions of the embedding:
  \<^item> a C \<^verbatim>\<open>double\<close> is a \<^typ>\<open>real\<close>: rounding, infinities and NaN are not modelled;
  \<^item> a \<^verbatim>\<open>PetscInt\<close> or \<^verbatim>\<open>int\<close> index is an \<^typ>\<open>int\<close> (grid indices are far from
    the machine range);
  \<^item> a \<^verbatim>\<open>double **f\<close> obtained from a DMDA vector is a function from the row index
    \<open>k\<close> and the column index \<open>j\<close> to the value \<^verbatim>\<open>f[k][j]\<close>; a store
    \<^verbatim>\<open>f[k][j] = v\<close> is a function update;
  \<^item> a \<^verbatim>\<open>for\<close> loop is a \<open>fold\<close> of its body over the list of the indices it visits, in
    the order of the source;
  \<^item> \<^verbatim>\<open>SETERRQ\<close> is an early return with an error value, so a routine that can reach one
    returns a sum type.
\<close>

subsection \<open>PETSc scalar helpers\<close>

definition PetscAbsReal :: "real \<Rightarrow> real" where
  "PetscAbsReal a = \<bar>a\<bar>"

text \<open>
  \<^verbatim>\<open>PetscPowReal\<close> is C's \<^verbatim>\<open>pow\<close>: \<^verbatim>\<open>pow(a,0) = 1\<close>; for a base \<open>a \<ge> 0\<close> it is the
  real power (\<^verbatim>\<open>pow(0,b) = 0\<close> for \<open>b > 0\<close>); for a negative base and an integral exponent
  it is the power of \<open>\<bar>a\<bar>\<close> with the sign of the base when the exponent is odd, so
  \<^verbatim>\<open>pow(-2,5) = -32\<close>. (HOL's \<open>powr\<close> alone would not do: it gives a negative base the
  power of its absolute value.) Two cases have no real value: \<^verbatim>\<open>pow(0,b)\<close> with \<open>b < 0\<close>
  is infinite in C and 0 here, and \<^verbatim>\<open>pow(a,b)\<close> with \<open>a < 0\<close> and \<open>b\<close> not integral is NaN
  in C and left unspecified here. No call in the two files reaches the second: every base
  is an absolute value, a sum of squares or the product \<^verbatim>\<open>rho_ice * g\<close> of two positive
  constants.
\<close>

definition PetscPowReal :: "real \<Rightarrow> real \<Rightarrow> real" where
  "PetscPowReal a b =
     (if b = 0 then 1
      else if 0 \<le> a then a powr b
      else if real_of_int \<lfloor>b\<rfloor> = b
        then (if even \<lfloor>b\<rfloor> then \<bar>a\<bar> powr b else - (\<bar>a\<bar> powr b))
      else undefined)"

subsection \<open>Data of \<^verbatim>\<open>ice.c\<close>\<close>

record CMBModel =
  ela :: real
  zgrad :: real

text \<open>
  \<^verbatim>\<open>AppCtx\<close> of \<^verbatim>\<open>ice.c\<close>. The pointer \<^verbatim>\<open>CMBModel *cmb\<close> is an option: \<open>None\<close> is
  \<^verbatim>\<open>NULL\<close>.
\<close>

record AppCtx =
  L :: real
  tf :: real
  secpera :: real
  g :: real
  rho_ice :: real
  n_ice :: real
  A_ice :: real
  Gamma :: real
  D0 :: real
  eps :: real
  delta :: real
  lambda :: real
  initmagic :: real
  cmb :: "CMBModel option"

text \<open>The fields of PETSc's \<^verbatim>\<open>DMDALocalInfo\<close> that the residual routines read.\<close>

record DMDALocalInfo =
  mx :: int
  my :: int
  xs :: int
  ys :: int
  xm :: int
  ym :: int

type_synonym array2 = "int \<Rightarrow> int \<Rightarrow> real"

text \<open>The struct \<^verbatim>\<open>Grad {double x,y;}\<close>; the fields are named \<open>Grad_x\<close>, \<open>Grad_y\<close>.\<close>

record Grad =
  Grad_x :: real
  Grad_y :: real

text \<open>
  How a routine can end without its result: the error of \<^verbatim>\<open>SetFromOptionsAppCtx\<close>
  (\<^verbatim>\<open>SETERRQ1\<close> with code 11 and the value of \<open>n\<close>), the error of the admissibility
  check of \<^verbatim>\<open>FormFunctionLocal\<close> (\<^verbatim>\<open>SETERRQ3\<close> with code 1 and, in the order of its
  message, the value, \<open>j\<close> and \<open>k\<close>), and the fault of a store through a null pointer.
\<close>

datatype PetscError =
  ERR_n_not_allowed real
  | ERR_non_admissible real int int
  | SEGV_null_store

subsection \<open>Climatic mass balance (\<^verbatim>\<open>ice.c\<close>)\<close>

text \<open>\<^verbatim>\<open>M_CMBModel\<close> writes its result through \<^verbatim>\<open>*M\<close> and returns 0; the model returns
  the value written.\<close>

definition M_CMBModel :: "CMBModel \<Rightarrow> real \<Rightarrow> real" where
  "M_CMBModel c s = zgrad c * (s - ela c)"

subsection \<open>Flux model of \<^verbatim>\<open>ice.c\<close>\<close>

definition getdelta :: "Grad \<Rightarrow> Grad \<Rightarrow> 'a AppCtx_scheme \<Rightarrow> real" where
  "getdelta gH gb user =
     (let n = n_ice user in
      if n > 1 then
        (let sx = Grad_x gH + Grad_x gb;
             sy = Grad_y gH + Grad_y gb;
             slopesqr = sx * sx + sy * sy + delta user * delta user
         in Gamma user * PetscPowReal slopesqr ((n - 1) / 2))
      else Gamma user)"

definition getW :: "real \<Rightarrow> Grad \<Rightarrow> Grad" where
  "getW dlt gb = \<lparr> Grad_x = - dlt * Grad_x gb, Grad_y = - dlt * Grad_y gb \<rparr>"

definition DCS :: "real \<Rightarrow> real \<Rightarrow> real \<Rightarrow> real \<Rightarrow> real \<Rightarrow> real" where
  "DCS dlt H n ep D_0 = (1 - ep) * dlt * PetscPowReal (PetscAbsReal H) (n + 2) + ep * D_0"

definition getflux :: "Grad \<Rightarrow> Grad \<Rightarrow> real \<Rightarrow> real \<Rightarrow> bool \<Rightarrow> 'a AppCtx_scheme \<Rightarrow> real" where
  "getflux gH gb H Hup xdir user =
     (let n = n_ice user;
          dlt = getdelta gH gb user;
          myD = DCS dlt H n (eps user) (D0 user);
          myW = getW dlt gb
      in if xdir then - myD * Grad_x gH + Grad_x myW * PetscPowReal (PetscAbsReal Hup) (n + 2)
         else - myD * Grad_y gH + Grad_y myW * PetscPowReal (PetscAbsReal Hup) (n + 2))"

subsection \<open>Q1 interpolation (\<^verbatim>\<open>ice.c\<close>)\<close>

definition gx :: "real list" where
  "gx = [-1, 1, 1, -1]"

definition gy :: "real list" where
  "gy = [-1, -1, 1, 1]"

definition fieldatpt :: "int \<Rightarrow> int \<Rightarrow> real \<Rightarrow> real \<Rightarrow> array2 \<Rightarrow> real" where
  "fieldatpt u v xi eta f =
     (let x = [1 - xi, xi, xi, 1 - xi];
          y = [1 - eta, 1 - eta, eta, eta]
      in x ! 0 * y ! 0 * f v u + x ! 1 * y ! 1 * f v (u + 1)
         + x ! 2 * y ! 2 * f (v + 1) (u + 1) + x ! 3 * y ! 3 * f (v + 1) u)"

definition gradfatpt :: "int \<Rightarrow> int \<Rightarrow> real \<Rightarrow> real \<Rightarrow> real \<Rightarrow> real \<Rightarrow> array2 \<Rightarrow> Grad" where
  "gradfatpt u v xi eta dx dy f =
     (let x = [1 - xi, xi, xi, 1 - xi];
          y = [1 - eta, 1 - eta, eta, eta];
          gradf_x = gx ! 0 * y ! 0 * f v u + gx ! 1 * y ! 1 * f v (u + 1)
                    + gx ! 2 * y ! 2 * f (v + 1) (u + 1) + gx ! 3 * y ! 3 * f (v + 1) u;
          gradf_y = x ! 0 * gy ! 0 * f v u + x ! 1 * gy ! 1 * f v (u + 1)
                    + x ! 2 * gy ! 2 * f (v + 1) (u + 1) + x ! 3 * gy ! 3 * f (v + 1) u
      in \<lparr> Grad_x = gradf_x / dx, Grad_y = gradf_y / dy \<rparr>)"

subsection \<open>Quadrature tables\<close>

definition je :: "int list" where
  "je = [0, 0, -1, -1, -1, -1, 0, 0]"

definition ke :: "int list" where
  "ke = [0, 0, 0, 0, -1, -1, -1, -1]"

definition ce :: "nat list" where
  "ce = [0, 3, 1, 0, 2, 1, 3, 2]"

definition xdire :: "bool list" where
  "xdire = [True, False, True, False]"

definition locx :: "real list" where
  "locx = [0.5, 0.75, 0.5, 0.25]"

definition locy :: "real list" where
  "locy = [0.25, 0.5, 0.75, 0.5]"

subsection \<open>\<^verbatim>\<open>FormIFunctionLocal\<close> of \<^verbatim>\<open>ice.c\<close>\<close>

type_synonym array3 = "int \<Rightarrow> int \<Rightarrow> nat \<Rightarrow> real"

text \<open>
  The point at which the upwinded thickness is sampled, for quadrature point \<open>c\<close> of an
  element: the block
  \<^verbatim>\<open>lxup = locx[c], lyup = locy[c]; if (xdire[c]) lxup = (gb.x <= 0.0) ? upmin : upmax;
  else lyup = (gb.y <= 0.0) ? upmin : upmax;\<close>
\<close>

definition upwind_point :: "real \<Rightarrow> real \<Rightarrow> nat \<Rightarrow> Grad \<Rightarrow> real \<times> real" where
  "upwind_point upmin upmax c gb =
     (if xdire ! c then (if Grad_x gb \<le> 0 then upmin else upmax, locy ! c)
      else (locx ! c, if Grad_y gb \<le> 0 then upmin else upmax))"

text \<open>The thickness \<^verbatim>\<open>Hup\<close> that the body of the element loop passes to the flux model.\<close>

definition ice_Hup :: "'a AppCtx_scheme \<Rightarrow> real \<Rightarrow> real \<Rightarrow> array2 \<Rightarrow> array2 \<Rightarrow> int \<Rightarrow> int \<Rightarrow> nat \<Rightarrow> real" where
  "ice_Hup user dx dy aH ab k j c =
     (let upwind = (lambda user > 0);
          upmin = (1 - lambda user) * 0.5;
          upmax = (1 + lambda user) * 0.5;
          H = fieldatpt j k (locx ! c) (locy ! c) aH;
          gb = gradfatpt j k (locx ! c) (locy ! c) dx dy ab
      in if upwind then
           (let p = upwind_point upmin upmax c gb in fieldatpt j k (fst p) (snd p) aH)
         else H)"

text \<open>The value stored in \<^verbatim>\<open>aqquad[k][j][c]\<close> by the body of the element loop.\<close>

definition ice_quadflux :: "'a AppCtx_scheme \<Rightarrow> real \<Rightarrow> real \<Rightarrow> array2 \<Rightarrow> array2 \<Rightarrow> int \<Rightarrow> int \<Rightarrow> nat \<Rightarrow> real" where
  "ice_quadflux user dx dy aH ab k j c =
     (let H = fieldatpt j k (locx ! c) (locy ! c) aH;
          gH = gradfatpt j k (locx ! c) (locy ! c) dx dy aH;
          gb = gradfatpt j k (locx ! c) (locy ! c) dx dy ab;
          Hup = ice_Hup user dx dy aH ab k j c
      in getflux gH gb H Hup (xdire ! c) user)"

text \<open>The loop over the elements \<open>ys-1 \<le> k < ys+ym\<close>, \<open>xs-1 \<le> j < xs+xm\<close> and \<open>c = 0..3\<close>.\<close>

definition ice_flux_loop ::
  "DMDALocalInfo \<Rightarrow> 'a AppCtx_scheme \<Rightarrow> real \<Rightarrow> real \<Rightarrow> array2 \<Rightarrow> array2 \<Rightarrow> array3 \<Rightarrow> array3" where
  "ice_flux_loop info user dx dy aH ab aqquad =
     fold (\<lambda>k. fold (\<lambda>j. fold (\<lambda>c aq.
             aq(k := (aq k)(j := (aq k j)(c := ice_quadflux user dx dy aH ab k j c))))
           [0..<4])
         [xs info - 1 .. xs info + xm info - 1])
       [ys info - 1 .. ys info + ym info - 1] aqquad"

text \<open>The loop that fills \<^verbatim>\<open>am\<close> from the CMB model when \<^verbatim>\<open>user->cmb != NULL\<close>.\<close>

definition ice_cmb_loop :: "DMDALocalInfo \<Rightarrow> 'a AppCtx_scheme \<Rightarrow> array2 \<Rightarrow> array2 \<Rightarrow> array2 \<Rightarrow> array2" where
  "ice_cmb_loop info user aH ab am =
     (case cmb user of
        None \<Rightarrow> am
      | Some cm \<Rightarrow>
          fold (\<lambda>k. fold (\<lambda>j a. a(k := (a k)(j := M_CMBModel cm (ab k j + aH k j))))
              [xs info .. xs info + xm info - 1])
            [ys info .. ys info + ym info - 1] am)"

text \<open>The loop over the owned nodes that writes the residual.\<close>

definition residual_node :: "real list \<Rightarrow> real \<Rightarrow> real \<Rightarrow> real \<Rightarrow> array3 \<Rightarrow> int \<Rightarrow> int \<Rightarrow> array2 \<Rightarrow> array2" where
  "residual_node coeff dx dy M aqquad k j FF =
     fold (\<lambda>s F. F(k := (F k)(j := F k j + coeff ! s * aqquad (k + ke ! s) (j + je ! s) (ce ! s))))
       [0..<8]
       (FF(k := (FF k)(j := - M * dx * dy)))"

definition ice_residual_loop ::
  "DMDALocalInfo \<Rightarrow> real list \<Rightarrow> real \<Rightarrow> real \<Rightarrow> array2 \<Rightarrow> array3 \<Rightarrow> array2 \<Rightarrow> array2" where
  "ice_residual_loop info coeff dx dy am aqquad FF =
     fold (\<lambda>k. fold (\<lambda>j. residual_node coeff dx dy (am k j) aqquad k j)
         [xs info .. xs info + xm info - 1])
       [ys info .. ys info + ym info - 1] FF"

text \<open>
  \<^verbatim>\<open>FormIFunctionLocal\<close>. It returns 0 on every path, so the model returns the array
  \<^verbatim>\<open>FF\<close> as the routine leaves it. The source declares \<^verbatim>\<open>double **am, **ab, ***aqquad\<close>
  and never assigns them, yet reads \<^verbatim>\<open>ab\<close> and stores through the other two. In C that is
  undefined behaviour (compiled as it stands, the call faults at the first access), and no
  caller can choose what the three pointers refer to. The last three arguments stand for
  the memory they happen to refer to: a statement about the routine as written may not
  assume anything of them.
\<close>

definition FormIFunctionLocal ::
  "DMDALocalInfo \<Rightarrow> real \<Rightarrow> array2 \<Rightarrow> array2 \<Rightarrow> array2 \<Rightarrow> 'a AppCtx_scheme
     \<Rightarrow> array2 \<Rightarrow> array2 \<Rightarrow> array3 \<Rightarrow> array2" where
  "FormIFunctionLocal info t aH aHdot FF user am ab aqquad =
     (let dx = L user / real_of_int (mx info);
          dy = L user / real_of_int (my info);
          coeff = [dy / 2, dx / 2, dx / 2, - dy / 2, - dy / 2, - dx / 2, - dx / 2, dy / 2];
          aqquad1 = ice_flux_loop info user dx dy aH ab aqquad;
          am1 = ice_cmb_loop info user aH ab am
      in ice_residual_loop info coeff dx dy am1 aqquad1 FF)"

subsection \<open>Configuration (\<^verbatim>\<open>ice.c\<close>)\<close>

text \<open>
  The options database, as far as \<^verbatim>\<open>SetFromOptionsAppCtx\<close> and
  \<^verbatim>\<open>SetFromOptionsCMBModel\<close> consult it: for each option, the value given on the command
  line, if any.
\<close>

record ice_options =
  opt_A :: "real option"
  opt_delta :: "real option"
  opt_initmagic :: "real option"
  opt_lambda :: "real option"
  opt_n :: "real option"

record cmb_options =
  opt_ela :: "real option"
  opt_zgrad :: "real option"

text \<open>\<^verbatim>\<open>PetscOptionsReal(name, text, man, current, &value, NULL)\<close>: the value of the option
  when it is given, the current value otherwise.\<close>

definition PetscOptionsReal :: "real option \<Rightarrow> real \<Rightarrow> real" where
  "PetscOptionsReal given current = (case given of None \<Rightarrow> current | Some v \<Rightarrow> v)"

text \<open>
  \<^verbatim>\<open>SetFromOptionsAppCtx\<close> assigns every field of \<^verbatim>\<open>*user\<close> but \<^verbatim>\<open>tf\<close>, so the
  structure it is handed is an argument. \<^verbatim>\<open>SETERRQ1(PETSC_COMM_WORLD,11,...,user->n_ice)\<close>
  returns at once with the value of \<open>n\<close> in its message.
\<close>

definition SetFromOptionsAppCtx :: "ice_options \<Rightarrow> AppCtx \<Rightarrow> PetscError + AppCtx" where
  "SetFromOptionsAppCtx opts user0 =
     (let u1 = user0\<lparr> L := 3, n_ice := 3, g := 9.81, rho_ice := 910, secpera := 31556926 \<rparr>;
          u2 = u1\<lparr> A_ice := (1 / 10 ^ 16) / secpera u1, initmagic := 1000, delta := 0.0001,
                   lambda := 0.25, cmb := None, L := 900000, D0 := 10, eps := 0.001 \<rparr>;
          u3 = u2\<lparr> A_ice := PetscOptionsReal (opt_A opts) (A_ice u2) \<rparr>;
          u4 = u3\<lparr> delta := PetscOptionsReal (opt_delta opts) (delta u3) \<rparr>;
          u5 = u4\<lparr> initmagic := PetscOptionsReal (opt_initmagic opts) (initmagic u4) \<rparr>;
          u6 = u5\<lparr> lambda := PetscOptionsReal (opt_lambda opts) (lambda u5) \<rparr>;
          u7 = u6\<lparr> n_ice := PetscOptionsReal (opt_n opts) (n_ice u6) \<rparr>
      in if n_ice u7 \<le> 1 then Inl (ERR_n_not_allowed (n_ice u7))
         else Inr (u7\<lparr> Gamma := 2 * PetscPowReal (rho_ice u7 * g u7) (n_ice u7) * A_ice u7
                                   / (n_ice u7 + 2) \<rparr>))"

definition SetFromOptionsCMBModel :: "cmb_options \<Rightarrow> real \<Rightarrow> CMBModel" where
  "SetFromOptionsCMBModel opts spa =
     (let c1 = \<lparr> ela = 2000, zgrad = 0.001 \<rparr>;
          c2 = c1\<lparr> ela := PetscOptionsReal (opt_ela opts) (ela c1) \<rparr>;
          c3 = c2\<lparr> zgrad := PetscOptionsReal (opt_zgrad opts) (zgrad c2) \<rparr>
      in c3\<lparr> zgrad := zgrad c3 / spa \<rparr>)"

text \<open>
  The start of \<^verbatim>\<open>main\<close>, up to the grid spacing it reports: the configuration is read
  first and \<^verbatim>\<open>CHKERRQ\<close> returns its error; only then is the DMDA created, whose
  \<^verbatim>\<open>DMDALocalInfo\<close> (an argument here: PETSc makes it) gives the spacing.
\<close>

definition main_setup ::
  "ice_options \<Rightarrow> cmb_options \<Rightarrow> AppCtx \<Rightarrow> DMDALocalInfo \<Rightarrow> PetscError + (AppCtx \<times> real \<times> real)" where
  "main_setup opts copts user0 info =
     (case SetFromOptionsAppCtx opts user0 of
        Inl e \<Rightarrow> Inl e
      | Inr user \<Rightarrow>
          (let cm = SetFromOptionsCMBModel copts (secpera user);
               user1 = user\<lparr> cmb := Some cm \<rparr>;
               dx = L user1 / real_of_int (mx info);
               dy = L user1 / real_of_int (my info)
           in Inr (user1, dx, dy)))"

subsection \<open>Data of \<^verbatim>\<open>dnl.c\<close>\<close>

text \<open>
  The routines of \<^verbatim>\<open>dnl.c\<close> read \<^verbatim>\<open>user->Gamma\<close>, \<^verbatim>\<open>n_ice\<close>, \<^verbatim>\<open>eps\<close>, \<^verbatim>\<open>D0\<close>,
  \<^verbatim>\<open>delta\<close>, \<^verbatim>\<open>lambda\<close>, \<^verbatim>\<open>L\<close>, \<^verbatim>\<open>cmb\<close>, \<^verbatim>\<open>verif\<close> and \<^verbatim>\<open>check_admissible\<close>. The
  structure the file declares has only some of them (the rest would come from the header
  \<^verbatim>\<open>ice.h\<close>, which the repository does not hold), so the context is the one of \<^verbatim>\<open>ice.c\<close>
  extended by the two flags. The declared fields \<^verbatim>\<open>C\<close>, \<^verbatim>\<open>q\<close>, \<^verbatim>\<open>p\<close>, \<^verbatim>\<open>psi\<close> and
  \<^verbatim>\<open>bed\<close> are read by none of the routines below.
\<close>

record dnl_AppCtx = AppCtx +
  check_admissible :: bool
  verif :: bool

text \<open>
  What \<^verbatim>\<open>FormFunctionLocal\<close> calls and the repository does not define:
  \<^verbatim>\<open>FormBedLocal(info,1,ab,user)\<close>, which fills the bed array (given its contents on entry),
  \<^verbatim>\<open>DomeCMB(x,y,user)\<close> and the two-argument \<^verbatim>\<open>M_CMBModel(user->cmb,s)\<close>. They are
  arguments of the model.
\<close>

record ice_h =
  FormBedLocal :: "DMDALocalInfo \<Rightarrow> int \<Rightarrow> array2 \<Rightarrow> dnl_AppCtx \<Rightarrow> array2"
  DomeCMB :: "real \<Rightarrow> real \<Rightarrow> dnl_AppCtx \<Rightarrow> real"
  M_CMBModel_h :: "CMBModel option \<Rightarrow> real \<Rightarrow> real"

subsection \<open>Flux model of \<^verbatim>\<open>dnl.c\<close>\<close>

definition sigma :: "Grad \<Rightarrow> Grad \<Rightarrow> 'a AppCtx_scheme \<Rightarrow> real" where
  "sigma gH gb user =
     (let sx = Grad_x gH + Grad_x gb;
          sy = Grad_y gH + Grad_y gb;
          slopesqr = sx * sx + sy * sy + delta user * delta user
      in Gamma user * PetscPowReal slopesqr ((n_ice user - 1) / 2))"

definition W :: "real \<Rightarrow> Grad \<Rightarrow> Grad" where
  "W sig gb = \<lparr> Grad_x = - sig * Grad_x gb, Grad_y = - sig * Grad_y gb \<rparr>"

definition dnl_DCS :: "real \<Rightarrow> real \<Rightarrow> 'a AppCtx_scheme \<Rightarrow> real" where
  "dnl_DCS sig H user =
     (1 - eps user) * sig * PetscPowReal (PetscAbsReal H) (n_ice user + 2) + eps user * D0 user"

text \<open>
  \<^verbatim>\<open>SIAflux\<close> returns its results through the pointers \<^verbatim>\<open>D\<close> and \<^verbatim>\<open>q\<close>. A pointer to
  \<^verbatim>\<open>double\<close> is an address or \<^verbatim>\<open>NULL\<close> (\<open>None\<close>), and the routine transforms a store of
  doubles. A store through \<^verbatim>\<open>NULL\<close> ends the call with \<open>SEGV_null_store\<close>.
\<close>

type_synonym addr = nat

type_synonym store = "addr \<Rightarrow> real"

definition store_through :: "addr option \<Rightarrow> real \<Rightarrow> store \<Rightarrow> PetscError + store" where
  "store_through ptr v m = (case ptr of None \<Rightarrow> Inl SEGV_null_store | Some a \<Rightarrow> Inr (m(a := v)))"

definition SIAflux ::
  "Grad \<Rightarrow> Grad \<Rightarrow> real \<Rightarrow> real \<Rightarrow> bool \<Rightarrow> addr option \<Rightarrow> addr option \<Rightarrow> 'a AppCtx_scheme
     \<Rightarrow> store \<Rightarrow> PetscError + store" where
  "SIAflux gH gb H Hup xdir D q user m =
     (let mysig = sigma gH gb user;
          myD = dnl_DCS mysig H user;
          myW = W mysig gb;
          m1 = (case D of None \<Rightarrow> m | Some a \<Rightarrow> m(a := myD))
      in if xdir \<and> q \<noteq> None then
           store_through q
             (- myD * Grad_x gH + Grad_x myW * PetscPowReal (PetscAbsReal Hup) (n_ice user + 2)) m1
         else
           store_through q
             (- myD * Grad_y gH + Grad_y myW * PetscPowReal (PetscAbsReal Hup) (n_ice user + 2)) m1)"

subsection \<open>Q1 interpolation (\<^verbatim>\<open>dnl.c\<close>)\<close>

definition dnl_fieldatpt :: "real \<Rightarrow> real \<Rightarrow> real list \<Rightarrow> real" where
  "dnl_fieldatpt xi eta f =
     (let x = [1 - xi, xi, xi, 1 - xi];
          y = [1 - eta, 1 - eta, eta, eta]
      in x ! 0 * y ! 0 * f ! 0 + x ! 1 * y ! 1 * f ! 1
         + x ! 2 * y ! 2 * f ! 2 + x ! 3 * y ! 3 * f ! 3)"

definition fieldatptArray :: "int \<Rightarrow> int \<Rightarrow> real \<Rightarrow> real \<Rightarrow> array2 \<Rightarrow> real" where
  "fieldatptArray u v xi eta f =
     (let ff = [f v u, f v (u + 1), f (v + 1) (u + 1), f (v + 1) u]
      in dnl_fieldatpt xi eta ff)"

definition dnl_gradfatpt :: "real \<Rightarrow> real \<Rightarrow> real \<Rightarrow> real \<Rightarrow> real list \<Rightarrow> Grad" where
  "dnl_gradfatpt xi eta dx dy f =
     (let x = [1 - xi, xi, xi, 1 - xi];
          y = [1 - eta, 1 - eta, eta, eta];
          gradf_x = gx ! 0 * y ! 0 * f ! 0 + gx ! 1 * y ! 1 * f ! 1
                    + gx ! 2 * y ! 2 * f ! 2 + gx ! 3 * y ! 3 * f ! 3;
          gradf_y = x ! 0 * gy ! 0 * f ! 0 + x ! 1 * gy ! 1 * f ! 1
                    + x ! 2 * gy ! 2 * f ! 2 + x ! 3 * gy ! 3 * f ! 3
      in \<lparr> Grad_x = gradf_x / dx, Grad_y = gradf_y / dy \<rparr>)"

definition gradfatptArray :: "int \<Rightarrow> int \<Rightarrow> real \<Rightarrow> real \<Rightarrow> real \<Rightarrow> real \<Rightarrow> array2 \<Rightarrow> Grad" where
  "gradfatptArray u v xi eta dx dy f =
     (let ff = [f v u, f v (u + 1), f (v + 1) (u + 1), f (v + 1) u]
      in dnl_gradfatpt xi eta dx dy ff)"

subsection \<open>\<^verbatim>\<open>FormFunctionLocal\<close> of \<^verbatim>\<open>dnl.c\<close>\<close>

text \<open>A loop whose body may return an error: the first error ends the loop.\<close>

fun forE :: "'i list \<Rightarrow> ('i \<Rightarrow> 's \<Rightarrow> PetscError + 's) \<Rightarrow> 's \<Rightarrow> PetscError + 's" where
  "forE [] body s = Inr s"
| "forE (i # rest) body s =
     (case body i s of Inl e \<Rightarrow> Inl e | Inr s' \<Rightarrow> forE rest body s')"

text \<open>
  The body of the first loop, on the pair of \<^verbatim>\<open>FF\<close> and the staged copy \<^verbatim>\<open>aH\<close>:
  nodes off the grid are skipped; with the check on, a negative value raises
  \<^verbatim>\<open>SETERRQ3(..., aHin[k][j], j, k)\<close>; a boundary node gets \<^verbatim>\<open>FF[k][j] = aHin[k][j]\<close> when
  it is owned and \<^verbatim>\<open>aH[k][j] = 0.0\<close>; any other node is copied.
\<close>

definition stage_node ::
  "DMDALocalInfo \<Rightarrow> 'a dnl_AppCtx_scheme \<Rightarrow> array2 \<Rightarrow> int \<Rightarrow> int \<Rightarrow> array2 \<times> array2
     \<Rightarrow> PetscError + array2 \<times> array2" where
  "stage_node info user aHin k j st =
     (let FF = fst st; aH = snd st in
      if j < 0 \<or> j > mx info - 1 \<or> k < 0 \<or> k > my info - 1 then Inr (FF, aH)
      else if check_admissible user \<and> aHin k j < 0 then
        Inl (ERR_non_admissible (aHin k j) j k)
      else if j = 0 \<or> j = mx info - 1 \<or> k = 0 \<or> k = my info - 1 then
        Inr (if j \<ge> xs info \<and> j < xs info + xm info \<and> k \<ge> ys info \<and> k < ys info + ym info
             then FF(k := (FF k)(j := aHin k j)) else FF,
             aH(k := (aH k)(j := 0)))
      else Inr (FF, aH(k := (aH k)(j := aHin k j))))"

definition stage_loop ::
  "DMDALocalInfo \<Rightarrow> 'a dnl_AppCtx_scheme \<Rightarrow> array2 \<Rightarrow> array2 \<times> array2
     \<Rightarrow> PetscError + array2 \<times> array2" where
  "stage_loop info user aHin st =
     forE [ys info - 1 .. ys info + ym info]
       (\<lambda>k. forE [xs info - 1 .. xs info + xm info] (\<lambda>j. stage_node info user aHin k j)) st"

text \<open>The thickness \<^verbatim>\<open>Hup\<close> of the element loop of \<^verbatim>\<open>dnl.c\<close>.\<close>

definition dnl_Hup :: "'a AppCtx_scheme \<Rightarrow> real \<Rightarrow> real \<Rightarrow> array2 \<Rightarrow> array2 \<Rightarrow> int \<Rightarrow> int \<Rightarrow> nat \<Rightarrow> real" where
  "dnl_Hup user dx dy aH ab k j c =
     (let upwind = (lambda user > 0);
          upmin = (1 - lambda user) * 0.5;
          upmax = (1 + lambda user) * 0.5;
          H = fieldatptArray j k (locx ! c) (locy ! c) aH;
          gb = gradfatptArray j k (locx ! c) (locy ! c) dx dy ab
      in if upwind then
           (let p = upwind_point upmin upmax c gb in fieldatptArray j k (fst p) (snd p) aH)
         else H)"

text \<open>
  The body of the element loop for one \<open>c\<close>. The locals \<^verbatim>\<open>DSIA_ckj\<close> and \<^verbatim>\<open>qSIA_ckj\<close>,
  whose addresses go to \<^verbatim>\<open>SIAflux\<close>, are the cells 0 and 1 of a store; the flux arrays
  are indexed as in the source, \<^verbatim>\<open>aqquad[c][k][j]\<close>.
\<close>

type_synonym qarrays = "nat \<Rightarrow> int \<Rightarrow> int \<Rightarrow> real"

definition DSIA_ckj :: addr where
  "DSIA_ckj = 0"

definition qSIA_ckj :: addr where
  "qSIA_ckj = 1"

definition dnl_quadflux ::
  "'a AppCtx_scheme \<Rightarrow> real \<Rightarrow> real \<Rightarrow> array2 \<Rightarrow> array2 \<Rightarrow> int \<Rightarrow> int \<Rightarrow> nat \<Rightarrow> qarrays \<times> store
     \<Rightarrow> PetscError + qarrays \<times> store" where
  "dnl_quadflux user dx dy aH ab k j c st =
     (let aqquad = fst st; m = snd st;
          H = fieldatptArray j k (locx ! c) (locy ! c) aH;
          gH = gradfatptArray j k (locx ! c) (locy ! c) dx dy aH;
          gb = gradfatptArray j k (locx ! c) (locy ! c) dx dy ab;
          Hup = dnl_Hup user dx dy aH ab k j c
      in case SIAflux gH gb H Hup (xdire ! c) (Some DSIA_ckj) (Some qSIA_ckj) user m of
           Inl e \<Rightarrow> Inl e
         | Inr m' \<Rightarrow> Inr (aqquad(c := (aqquad c)(k := (aqquad c k)(j := m' qSIA_ckj))), m'))"

definition dnl_flux_loop ::
  "DMDALocalInfo \<Rightarrow> 'a AppCtx_scheme \<Rightarrow> real \<Rightarrow> real \<Rightarrow> array2 \<Rightarrow> array2 \<Rightarrow> qarrays \<times> store
     \<Rightarrow> PetscError + qarrays \<times> store" where
  "dnl_flux_loop info user dx dy aH ab st =
     forE [ys info - 1 .. ys info + ym info - 1]
       (\<lambda>k. forE [xs info - 1 .. xs info + xm info - 1]
         (\<lambda>j st'. if j < 0 \<or> j \<ge> mx info - 1 \<or> k < 0 \<or> k \<ge> my info - 1 then Inr st'
                  else forE [0..<4] (dnl_quadflux user dx dy aH ab k j) st')) st"

definition dnl_residual_node ::
  "real list \<Rightarrow> real \<Rightarrow> real \<Rightarrow> real \<Rightarrow> qarrays \<Rightarrow> int \<Rightarrow> int \<Rightarrow> array2 \<Rightarrow> array2" where
  "dnl_residual_node coeff dx dy M aqquad k j FF =
     fold (\<lambda>s F. F(k := (F k)(j := F k j + coeff ! s * aqquad (ce ! s) (k + ke ! s) (j + je ! s))))
       [0..<8]
       (FF(k := (FF k)(j := - M * dx * dy)))"

definition dnl_residual_loop ::
  "ice_h \<Rightarrow> DMDALocalInfo \<Rightarrow> dnl_AppCtx \<Rightarrow> real list \<Rightarrow> real \<Rightarrow> real \<Rightarrow> array2 \<Rightarrow> array2 \<Rightarrow> qarrays
     \<Rightarrow> array2 \<Rightarrow> array2" where
  "dnl_residual_loop ext info user coeff dx dy aH ab aqquad FF =
     fold (\<lambda>k. fold (\<lambda>j F.
             if j = 0 \<or> j = mx info - 1 \<or> k = 0 \<or> k = my info - 1 then F
             else
               (let M = (if verif user
                         then DomeCMB ext (real_of_int j * dx) (real_of_int k * dy) user
                         else M_CMBModel_h ext (cmb user) (ab k j + aH k j))
                in dnl_residual_node coeff dx dy M aqquad k j F))
           [xs info .. xs info + xm info - 1])
       [ys info .. ys info + ym info - 1] FF"

text \<open>
  \<^verbatim>\<open>FormFunctionLocal\<close>. The work vectors \<^verbatim>\<open>Hcopy\<close>, \<^verbatim>\<open>b\<close> and \<^verbatim>\<open>qquad[c]\<close> come from
  \<^verbatim>\<open>DMGetLocalVector\<close>, which does not fix their contents: these, and the store of the two
  locals, are the last arguments. The PETSc calls under \<^verbatim>\<open>CHKERRQ\<close> are taken to succeed.
  The result is the error raised, or \<^verbatim>\<open>FF\<close> as the routine leaves it.
\<close>

definition FormFunctionLocal ::
  "ice_h \<Rightarrow> DMDALocalInfo \<Rightarrow> array2 \<Rightarrow> array2 \<Rightarrow> dnl_AppCtx
     \<Rightarrow> array2 \<Rightarrow> array2 \<Rightarrow> qarrays \<Rightarrow> store \<Rightarrow> PetscError + array2" where
  "FormFunctionLocal ext info aHin FF user Hcopy b qquad m =
     (let dx = L user / real_of_int (mx info - 1);
          dy = L user / real_of_int (my info - 1);
          coeff = [dy / 2, dx / 2, dx / 2, - dy / 2, - dy / 2, - dx / 2, - dx / 2, dy / 2]
      in case stage_loop info user aHin (FF, Hcopy) of
           Inl e \<Rightarrow> Inl e
         | Inr st1 \<Rightarrow>
             (let FF1 = fst st1; aH = snd st1;
                  ab = (if verif user then (\<lambda>k j. 0) else FormBedLocal ext info 1 b user)
              in case dnl_flux_loop info user dx dy aH ab (qquad, m) of
                   Inl e \<Rightarrow> Inl e
                 | Inr st2 \<Rightarrow>
                     Inr (dnl_residual_loop ext info user coeff dx dy aH ab (fst st2) FF1)))"

subsection \<open>Concrete inputs\<close>

text \<open>
  A context for evaluating the routines: a square of side 4, Glen exponent 3, unit flux
  coefficient and slope regularisation, the default continuation and upwinding parameters,
  and no CMB model. Record updates vary it where a theorem needs another value.
\<close>

definition test_user :: AppCtx where
  "test_user = \<lparr> L = 4, tf = 1, secpera = 31556926, g = 9.81, rho_ice = 910, n_ice = 3,
                  A_ice = 1, Gamma = 1, D0 = 10, eps = 0.001, delta = 1, lambda = 0.25,
                  initmagic = 1000, cmb = None \<rparr>"

text \<open>A 4 by 4 grid owned by one process: spacing 1 with \<open>test_user\<close> in \<^verbatim>\<open>ice.c\<close>.\<close>

definition test_info :: DMDALocalInfo where
  "test_info = \<lparr> mx = 4, my = 4, xs = 0, ys = 0, xm = 4, ym = 4 \<rparr>"

definition const_field :: "real \<Rightarrow> array2" where
  "const_field v k j = v"

text \<open>A bed of period 2 in \<open>j\<close> (so periodic on the 4 by 4 grid): 0 on even columns, 1 on odd
  ones.\<close>

definition ridge_bed :: array2 where
  "ridge_bed k j = (if j mod 2 = 0 then 0 else 1)"

definition zero_flux :: array3 where
  "zero_flux k j c = 0"

definition no_cmb :: CMBModel where
  "no_cmb = \<lparr> ela = 0, zgrad = 0 \<rparr>"

definition unit_cmb :: CMBModel where
  "unit_cmb = \<lparr> ela = 0, zgrad = 1 \<rparr>"

text \<open>For \<^verbatim>\<open>dnl.c\<close>: the same context with the admissibility check and the verification
  mode off, and stand-ins for the routines of \<^verbatim>\<open>ice.h\<close> (a flat bed, no source).\<close>

definition dnl_test_user :: dnl_AppCtx where
  "dnl_test_user = \<lparr> L = 3, tf = 1, secpera = 31556926, g = 9.81, rho_ice = 910, n_ice = 3,
                      A_ice = 1, Gamma = 1, D0 = 10, eps = 0.001, delta = 1, lambda = 0.25,
                      initmagic = 1000, cmb = None, check_admissible = False, verif = False \<rparr>"

definition flat_FormBedLocal :: "DMDALocalInfo \<Rightarrow> int \<Rightarrow> array2 \<Rightarrow> dnl_AppCtx \<Rightarrow> array2" where
  "flat_FormBedLocal info w ab user = const_field 0"

definition zero_DomeCMB :: "real \<Rightarrow> real \<Rightarrow> dnl_AppCtx \<Rightarrow> real" where
  "zero_DomeCMB x y user = 0"

definition zero_M_CMBModel :: "CMBModel option \<Rightarrow> real \<Rightarrow> real" where
  "zero_M_CMBModel cm s = 0"

definition test_ext :: ice_h where
  "test_ext = \<lparr> FormBedLocal = flat_FormBedLocal, DomeCMB = zero_DomeCMB,
                 M_CMBModel_h = zero_M_CMBModel \<rparr>"

definition zero_qquad :: qarrays where
  "zero_qquad c k j = 0"

definition zero_store :: store where
  "zero_store a = 0"

text \<open>An iterate that tells the nodes apart, \<open>10 k + j\<close> at the node \<open>(k,j)\<close>.\<close>

definition probe_field :: array2 where
  "probe_field k j = real_of_int (10 * k + j)"

subsection \<open>Nodes of the grid of \<^verbatim>\<open>dnl.c\<close>\<close>

text \<open>
  Names for the tests \<^verbatim>\<open>FormFunctionLocal\<close> makes on a node: it lies on the grid (the
  first loop skips the others), on the boundary of the grid, in the range the process
  owns, or in the range the first loop visits (the owned range and one layer around it).
\<close>

definition on_grid :: "DMDALocalInfo \<Rightarrow> int \<Rightarrow> int \<Rightarrow> bool" where
  "on_grid info k j = (0 \<le> j \<and> j \<le> mx info - 1 \<and> 0 \<le> k \<and> k \<le> my info - 1)"

definition boundary_node :: "DMDALocalInfo \<Rightarrow> int \<Rightarrow> int \<Rightarrow> bool" where
  "boundary_node info k j = (j = 0 \<or> j = mx info - 1 \<or> k = 0 \<or> k = my info - 1)"

definition owned_node :: "DMDALocalInfo \<Rightarrow> int \<Rightarrow> int \<Rightarrow> bool" where
  "owned_node info k j =
     (j \<ge> xs info \<and> j < xs info + xm info \<and> k \<ge> ys info \<and> k < ys info + ym info)"

definition visited_node :: "DMDALocalInfo \<Rightarrow> int \<Rightarrow> int \<Rightarrow> bool" where
  "visited_node info k j =
     (ys info - 1 \<le> k \<and> k \<le> ys info + ym info \<and> xs info - 1 \<le> j \<and> j \<le> xs info + xm info)"

text \<open>What the first loop of \<^verbatim>\<open>FormFunctionLocal\<close> leaves in \<^verbatim>\<open>FF[k][j]\<close> and in
  \<^verbatim>\<open>aH[k][j]\<close> when it visits the node, given the value the array held.\<close>

definition stage_FF :: "DMDALocalInfo \<Rightarrow> array2 \<Rightarrow> int \<Rightarrow> int \<Rightarrow> real \<Rightarrow> real" where
  "stage_FF info aHin k j old =
     (if on_grid info k j \<and> boundary_node info k j \<and> owned_node info k j then aHin k j else old)"

definition stage_aH :: "DMDALocalInfo \<Rightarrow> array2 \<Rightarrow> int \<Rightarrow> int \<Rightarrow> real \<Rightarrow> real" where
  "stage_aH info aHin k j old =
     (if on_grid info k j then (if boundary_node info k j then 0 else aHin k j) else old)"

section \<open>Loops that store into arrays\<close>

lemma fold_row:
  "distinct js \<Longrightarrow>
   fold (\<lambda>j r. r(j := h j (r j))) js r j' = (if j' \<in> set js then h j' (r j') else r j')"
  by (induction js arbitrary: r) auto

lemma fold_inner_app:
  "fold (\<lambda>j F. F(k := (F k)(j := h j (F k j)))) js F
   = F(k := fold (\<lambda>j r. r(j := h j (r j))) js (F k))"
  by (induction js arbitrary: F) auto

lemma fold_inner:
  "fold (\<lambda>j F. F(k := (F k)(j := h j (F k j)))) js
   = (\<lambda>F. F(k := fold (\<lambda>j r. r(j := h j (r j))) js (F k)))"
  by (rule ext) (rule fold_inner_app)

lemma fold_grid:
  assumes "distinct ks" "distinct js"
  shows "fold (\<lambda>k. fold (\<lambda>j F. F(k := (F k)(j := h k j (F k j)))) js) ks F k' j'
         = (if k' \<in> set ks \<and> j' \<in> set js then h k' j' (F k' j') else F k' j')"
proof -
  have "fold (\<lambda>k. fold (\<lambda>j F. F(k := (F k)(j := h k j (F k j)))) js) ks F
        = fold (\<lambda>k F. F(k := fold (\<lambda>j r. r(j := h k j (r j))) js (F k))) ks F"
    by (simp add: fold_inner)
  then show ?thesis using assms
    by (simp add: fold_row [where h = "\<lambda>k row. fold (\<lambda>j r. r(j := h k j (r j))) js row"]
          fold_row)
qed

lemma upt_0_4: "[0..<4] = [0, 1, 2, 3::nat]"
  by (simp add: upt_rec)

lemma upt_0_8: "[0..<8] = [0, 1, 2, 3, 4, 5, 6, 7::nat]"
  by (simp add: upt_rec)

lemma fold_pair:
  "fold (\<lambda>i st. (f i (fst st), h i (snd st))) is st = (fold f is (fst st), fold h is (snd st))"
  by (induction "is" arbitrary: st) simp_all

section \<open>Loops that may fail\<close>

text \<open>A loop whose body fails or not by a test on the index alone fails at the first index
  that fails the test, and runs through otherwise.\<close>

lemma forE_find:
  assumes "\<And>i s. body i s = (if bad i then Inl (err i) else Inr (upd i s))"
  shows "forE is body s
         = (case find bad is of Some i \<Rightarrow> Inl (err i) | None \<Rightarrow> Inr (fold upd is s))"
  by (induction "is" arbitrary: s) (auto simp: assms split: option.splits)

lemma forE_total:
  assumes "\<And>i s. \<exists>s'. body i s = Inr s'"
  shows "\<exists>s'. forE is body s = Inr s'"
proof (induction "is" arbitrary: s)
  case Nil
  show ?case by simp
next
  case (Cons i rest)
  from assms obtain s1 where "body i s = Inr s1" by blast
  with Cons show ?case by simp
qed

section \<open>Signs in the flux model\<close>

lemma PetscPowReal_nonneg: "0 \<le> a \<Longrightarrow> 0 \<le> PetscPowReal a b"
  by (simp add: PetscPowReal_def)

lemma PetscPowReal_pos: "0 < a \<Longrightarrow> 0 < PetscPowReal a b"
  by (simp add: PetscPowReal_def)

text \<open>Where the code takes the power of an absolute value, it is the real power.\<close>

lemma PetscPowReal_abs: "PetscPowReal \<bar>a\<bar> b = (if b = 0 then 1 else \<bar>a\<bar> powr b)"
  by (simp add: PetscPowReal_def)

text \<open>Without the absolute value the sign of a negative base would show.\<close>

lemma PetscPowReal_negative_base: "PetscPowReal (- 2) 5 = - 32" "PetscPowReal 2 5 = 32"
  by (simp_all add: PetscPowReal_def)

lemma getdelta_pos:
  assumes "0 < Gamma user" "delta user \<noteq> 0"
  shows "0 < getdelta gH gb user"
proof -
  let ?s = "(Grad_x gH + Grad_x gb) * (Grad_x gH + Grad_x gb)
            + (Grad_y gH + Grad_y gb) * (Grad_y gH + Grad_y gb) + delta user * delta user"
  have "0 < delta user * delta user" using assms(2) by (auto simp: zero_less_mult_iff)
  moreover have "0 \<le> (Grad_x gH + Grad_x gb) * (Grad_x gH + Grad_x gb)"
    and "0 \<le> (Grad_y gH + Grad_y gb) * (Grad_y gH + Grad_y gb)" by simp_all
  ultimately have "0 < ?s" by linarith
  then have "0 < PetscPowReal ?s ((n_ice user - 1) / 2)" by (rule PetscPowReal_pos)
  with assms(1) show ?thesis by (simp add: getdelta_def Let_def)
qed

section \<open>The residual of \<^verbatim>\<open>ice.c\<close>, node by node\<close>

lemma residual_node_eq:
  "residual_node coeff dx dy M aq k j FF =
     FF(k := (FF k)(j := - M * dx * dy
        + coeff ! 0 * aq k j 0 + coeff ! 1 * aq k j 3
        + coeff ! 2 * aq k (j - 1) 1 + coeff ! 3 * aq k (j - 1) 0
        + coeff ! 4 * aq (k - 1) (j - 1) 2 + coeff ! 5 * aq (k - 1) (j - 1) 1
        + coeff ! 6 * aq (k - 1) j 3 + coeff ! 7 * aq (k - 1) j 2))"
  by (simp add: residual_node_def upt_0_8 je_def ke_def ce_def)

lemma ice_residual_loop_at:
  "ice_residual_loop info coeff dx dy am aq FF k j =
    (if k \<in> {ys info ..< ys info + ym info} \<and> j \<in> {xs info ..< xs info + xm info} then
       - am k j * dx * dy
        + coeff ! 0 * aq k j 0 + coeff ! 1 * aq k j 3
        + coeff ! 2 * aq k (j - 1) 1 + coeff ! 3 * aq k (j - 1) 0
        + coeff ! 4 * aq (k - 1) (j - 1) 2 + coeff ! 5 * aq (k - 1) (j - 1) 1
        + coeff ! 6 * aq (k - 1) j 3 + coeff ! 7 * aq (k - 1) j 2
     else FF k j)"
  unfolding ice_residual_loop_def residual_node_eq
  by (subst fold_grid) auto

lemma lt4: "(c::nat) < 4 \<longleftrightarrow> c = 0 \<or> c = 1 \<or> c = 2 \<or> c = 3"
  by auto

lemma ice_flux_loop_at:
  "ice_flux_loop info user dx dy aH ab aq k j c =
    (if k \<in> {ys info - 1 ..< ys info + ym info} \<and> j \<in> {xs info - 1 ..< xs info + xm info} \<and> c < 4
     then ice_quadflux user dx dy aH ab k j c else aq k j c)"
proof -
  have body: "\<And>k j. fold (\<lambda>c aq. aq(k := (aq k)(j := (aq k j)(c := ice_quadflux user dx dy aH ab k j c)))) [0..<4]
    = (\<lambda>aq. aq(k := (aq k)(j := (\<lambda>c. if c < 4 then ice_quadflux user dx dy aH ab k j c else aq k j c))))"
    by (rule ext) (auto simp: upt_0_4 fun_eq_iff lt4)
  show ?thesis
    unfolding ice_flux_loop_def body
    by (subst fold_grid) auto
qed

lemma ice_cmb_loop_at:
  "ice_cmb_loop info user aH ab am k j =
    (case cmb user of None \<Rightarrow> am k j
     | Some cm \<Rightarrow> if k \<in> {ys info ..< ys info + ym info} \<and> j \<in> {xs info ..< xs info + xm info}
         then M_CMBModel cm (ab k j + aH k j) else am k j)"
proof (cases "cmb user")
  case None
  then show ?thesis by (simp add: ice_cmb_loop_def)
next
  case (Some cm)
  show ?thesis
    unfolding ice_cmb_loop_def Some option.case
    by (subst fold_grid) auto
qed

text \<open>
  At an owned node the residual is the source term plus the eight boundary fluxes of the
  control volume, each the flux the element loop stored.
\<close>

lemma FormIFunctionLocal_owned:
  assumes k: "ys info \<le> k" "k < ys info + ym info"
    and j: "xs info \<le> j" "j < xs info + xm info"
  shows "FormIFunctionLocal info t aH aHdot FF user am ab aq k j =
     (let dx = L user / real_of_int (mx info);
          dy = L user / real_of_int (my info);
          qf = ice_quadflux user dx dy aH ab
      in - ice_cmb_loop info user aH ab am k j * dx * dy
         + dy / 2 * qf k j 0 + dx / 2 * qf k j 3
         + dx / 2 * qf k (j - 1) 1 - dy / 2 * qf k (j - 1) 0
         - dy / 2 * qf (k - 1) (j - 1) 2 - dx / 2 * qf (k - 1) (j - 1) 1
         - dx / 2 * qf (k - 1) j 3 + dy / 2 * qf (k - 1) j 2)"
  using k j
  by (simp add: FormIFunctionLocal_def Let_def ice_residual_loop_at ice_flux_loop_at)

lemma gradfatpt_const:
  "gradfatpt u v xi eta dx dy (const_field c) = \<lparr>Grad_x = 0, Grad_y = 0\<rparr>"
  by (simp add: gradfatpt_def gx_def gy_def const_field_def algebra_simps)

lemma fieldatpt_const: "fieldatpt u v xi eta (const_field c) = c"
  by (simp add: fieldatpt_def const_field_def algebra_simps)

lemma getflux_no_slope:
  "getflux \<lparr>Grad_x = 0, Grad_y = 0\<rparr> \<lparr>Grad_x = 0, Grad_y = 0\<rparr> H Hup xdir user = 0"
  by (simp add: getflux_def getW_def Let_def)

lemma ice_quadflux_flat:
  "ice_quadflux user dx dy (const_field H0) (const_field b0) k j c = 0"
  by (simp add: ice_quadflux_def Let_def gradfatpt_const getflux_no_slope)

lemma ice_quadflux_cmb:
  "ice_quadflux (user\<lparr>cmb := cm'\<rparr>) dx dy aH ab k j c = ice_quadflux user dx dy aH ab k j c"
  by (simp add: ice_quadflux_def ice_Hup_def getflux_def getdelta_def Let_def)

text \<open>The test grid and context: the node \<open>(1,1)\<close> and \<open>(1,2)\<close> are owned, the spacing is 1.\<close>

lemma test_owned:
  "ys test_info \<le> 1" "1 < ys test_info + ym test_info"
  "xs test_info \<le> 1" "1 < xs test_info + xm test_info"
  "xs test_info \<le> 2" "2 < xs test_info + xm test_info"
  by (simp_all add: test_info_def)

lemma test_sizes: "L test_user = 4" "mx test_info = 4" "my test_info = 4"
  by (simp_all add: test_user_def test_info_def)

lemma gradfatpt_ridge:
  "gradfatpt u v xi eta 1 1 ridge_bed
     = \<lparr>Grad_x = ridge_bed v (u + 1) - ridge_bed v u, Grad_y = 0\<rparr>"
  by (simp add: gradfatpt_def gx_def gy_def ridge_bed_def algebra_simps)

text \<open>
  Over the ridge bed a uniform thickness 1 flows downhill: the \<open>x\<close>-flux of an element is
  \<open>- sigma * gb.x\<close> with \<open>sigma = gb.x\<^sup>2 + delta\<^sup>2 = 2\<close>, the \<open>y\<close>-flux is zero.
\<close>

lemma ice_quadflux_ridge:
  "ice_quadflux (test_user\<lparr>cmb := cm'\<rparr>) 1 1 (const_field 1) ridge_bed v u c
     = (if xdire ! c then - (2 * (ridge_bed v (u + 1) - ridge_bed v u)) else 0)"
  by (simp add: ice_quadflux_def ice_Hup_def Let_def gradfatpt_ridge gradfatpt_const
        fieldatpt_const getflux_def getdelta_def getW_def DCS_def PetscPowReal_def
        PetscAbsReal_def test_user_def ridge_bed_def)

lemma M_no_cmb: "M_CMBModel no_cmb s = 0"
  by (simp add: M_CMBModel_def no_cmb_def)

section \<open>The loops of \<^verbatim>\<open>FormFunctionLocal\<close>\<close>

lemma find_Some_holds: "find P is = Some i \<Longrightarrow> P i \<and> i \<in> set is"
  by (induction "is") (auto split: if_splits)

lemma find_None_none: "find P is = None \<longleftrightarrow> (\<forall>i\<in>set is. \<not> P i)"
  by (induction "is") auto

lemma stage_node_cases:
  "stage_node info user aHin k j st =
     (if on_grid info k j \<and> check_admissible user \<and> aHin k j < 0
      then Inl (ERR_non_admissible (aHin k j) j k)
      else Inr ((fst st)(k := (fst st k)(j := stage_FF info aHin k j (fst st k j))),
                (snd st)(k := (snd st k)(j := stage_aH info aHin k j (snd st k j)))))"
  by (cases st)
    (auto simp: stage_node_def stage_FF_def stage_aH_def on_grid_def boundary_node_def
       owned_node_def Let_def)

lemma stage_row:
  "forE js (stage_node info user aHin k) st =
     (case find (\<lambda>j. on_grid info k j \<and> check_admissible user \<and> aHin k j < 0) js of
        Some j \<Rightarrow> Inl (ERR_non_admissible (aHin k j) j k)
      | None \<Rightarrow> Inr (fold (\<lambda>j F. F(k := (F k)(j := stage_FF info aHin k j (F k j)))) js (fst st),
                     fold (\<lambda>j A. A(k := (A k)(j := stage_aH info aHin k j (A k j)))) js (snd st)))"
proof -
  have "forE js (stage_node info user aHin k) st =
     (case find (\<lambda>j. on_grid info k j \<and> check_admissible user \<and> aHin k j < 0) js of
        Some j \<Rightarrow> Inl (ERR_non_admissible (aHin k j) j k)
      | None \<Rightarrow> Inr (fold (\<lambda>j st. ((fst st)(k := (fst st k)(j := stage_FF info aHin k j (fst st k j))),
                (snd st)(k := (snd st k)(j := stage_aH info aHin k j (snd st k j))))) js st))"
    by (rule forE_find) (rule stage_node_cases)
  then show ?thesis
    by (simp add: fold_pair [where f = "\<lambda>j F. F(k := (F k)(j := stage_FF info aHin k j (F k j)))"
          and h = "\<lambda>j A. A(k := (A k)(j := stage_aH info aHin k j (A k j)))"]
        split: option.splits)
qed

text \<open>
  The first loop as a whole: it stops at the first row that holds a negative value on the
  grid (when the check is on), at the first such node of the row; otherwise it performs the
  stores of every node it visits.
\<close>

lemma stage_loop_char:
  "stage_loop info user aHin st =
     (case find (\<lambda>k. find (\<lambda>j. on_grid info k j \<and> check_admissible user \<and> aHin k j < 0)
                        [xs info - 1 .. xs info + xm info] \<noteq> None)
             [ys info - 1 .. ys info + ym info] of
        Some k \<Rightarrow>
          (case find (\<lambda>j. on_grid info k j \<and> check_admissible user \<and> aHin k j < 0)
                  [xs info - 1 .. xs info + xm info] of
             Some j \<Rightarrow> Inl (ERR_non_admissible (aHin k j) j k)
           | None \<Rightarrow> Inr st)
      | None \<Rightarrow>
          Inr (fold (\<lambda>k. fold (\<lambda>j F. F(k := (F k)(j := stage_FF info aHin k j (F k j))))
                      [xs info - 1 .. xs info + xm info])
                 [ys info - 1 .. ys info + ym info] (fst st),
               fold (\<lambda>k. fold (\<lambda>j A. A(k := (A k)(j := stage_aH info aHin k j (A k j))))
                      [xs info - 1 .. xs info + xm info])
                 [ys info - 1 .. ys info + ym info] (snd st)))"
proof -
  let ?js = "[xs info - 1 .. xs info + xm info]"
  let ?bad = "\<lambda>k j. on_grid info k j \<and> check_admissible user \<and> aHin k j < 0"
  let ?err = "\<lambda>k. case find (?bad k) ?js of
                      Some j \<Rightarrow> ERR_non_admissible (aHin k j) j k
                    | None \<Rightarrow> SEGV_null_store"
  let ?upd = "\<lambda>k st. (fold (\<lambda>j F. F(k := (F k)(j := stage_FF info aHin k j (F k j)))) ?js (fst st),
                     fold (\<lambda>j A. A(k := (A k)(j := stage_aH info aHin k j (A k j)))) ?js (snd st))"
  have row: "forE ?js (stage_node info user aHin k) s
       = (if find (?bad k) ?js \<noteq> None then Inl (?err k) else Inr (?upd k s))" for k s
    by (simp add: stage_row split: option.splits)
  have "stage_loop info user aHin st
        = (case find (\<lambda>k. find (?bad k) ?js \<noteq> None) [ys info - 1 .. ys info + ym info] of
             Some k \<Rightarrow> Inl (?err k)
           | None \<Rightarrow> Inr (fold ?upd [ys info - 1 .. ys info + ym info] st))"
    unfolding stage_loop_def by (rule forE_find) (rule row)
  moreover have "fold ?upd ks st
      = (fold (\<lambda>k. fold (\<lambda>j F. F(k := (F k)(j := stage_FF info aHin k j (F k j)))) ?js) ks (fst st),
         fold (\<lambda>k. fold (\<lambda>j A. A(k := (A k)(j := stage_aH info aHin k j (A k j)))) ?js) ks (snd st))"
    for ks
    by (rule fold_pair
          [where f = "\<lambda>k. fold (\<lambda>j F. F(k := (F k)(j := stage_FF info aHin k j (F k j)))) ?js"
            and h = "\<lambda>k. fold (\<lambda>j A. A(k := (A k)(j := stage_aH info aHin k j (A k j)))) ?js"])
  ultimately show ?thesis
    by (auto split: option.splits dest: find_Some_holds)
qed

lemma stage_loop_Inr:
  assumes "stage_loop info user aHin st = Inr st'"
  shows "fst st' k j = (if visited_node info k j then stage_FF info aHin k j (fst st k j) else fst st k j)"
    and "snd st' k j = (if visited_node info k j then stage_aH info aHin k j (snd st k j) else snd st k j)"
  using assms
  by (auto simp: stage_loop_char fold_grid visited_node_def split: option.splits
        dest: find_Some_holds)

lemma stage_loop_Inl:
  assumes "stage_loop info user aHin st = Inl e"
  shows "\<exists>k j. visited_node info k j \<and> on_grid info k j \<and> check_admissible user \<and> aHin k j < 0
           \<and> e = ERR_non_admissible (aHin k j) j k"
  using assms
  by (auto simp: stage_loop_char visited_node_def split: option.splits dest!: find_Some_holds)

lemma stage_loop_fails:
  assumes "check_admissible user" "visited_node info k j" "on_grid info k j" "aHin k j < 0"
  shows "\<exists>e. stage_loop info user aHin st = Inl e"
proof -
  let ?js = "[xs info - 1 .. xs info + xm info]"
  let ?bad = "\<lambda>k j. on_grid info k j \<and> check_admissible user \<and> aHin k j < 0"
  from assms have "find (?bad k) ?js \<noteq> None"
    by (auto simp: find_None_none visited_node_def)
  moreover from assms have "k \<in> set [ys info - 1 .. ys info + ym info]"
    by (simp add: visited_node_def)
  ultimately have "find (\<lambda>k. find (?bad k) ?js \<noteq> None) [ys info - 1 .. ys info + ym info] \<noteq> None"
    unfolding find_None_none by blast
  then show ?thesis
    by (auto simp: stage_loop_char split: option.splits dest: find_Some_holds)
qed

lemma stage_loop_passes:
  assumes "\<And>k j. check_admissible user \<Longrightarrow> visited_node info k j \<Longrightarrow> on_grid info k j \<Longrightarrow> 0 \<le> aHin k j"
  shows "\<exists>st'. stage_loop info user aHin st = Inr st'"
proof (cases "stage_loop info user aHin st")
  case (Inl e)
  from stage_loop_Inl [OF Inl] assms show ?thesis by force
next
  case (Inr st')
  then show ?thesis by blast
qed

lemma SIAflux_total: "\<exists>m'. SIAflux gH gb H Hup xdir D (Some a) user m = Inr m'"
  by (simp add: SIAflux_def store_through_def Let_def)

lemma dnl_quadflux_total: "\<exists>st'. dnl_quadflux user dx dy aH ab k j c st = Inr st'"
proof -
  obtain m' where "SIAflux (gradfatptArray j k (locx ! c) (locy ! c) dx dy aH)
      (gradfatptArray j k (locx ! c) (locy ! c) dx dy ab)
      (fieldatptArray j k (locx ! c) (locy ! c) aH) (dnl_Hup user dx dy aH ab k j c)
      (xdire ! c) (Some DSIA_ckj) (Some qSIA_ckj) user (snd st) = Inr m'"
    using SIAflux_total by blast
  then show ?thesis by (simp add: dnl_quadflux_def Let_def)
qed

lemma dnl_flux_loop_total: "\<exists>st'. dnl_flux_loop info user dx dy aH ab st = Inr st'"
proof -
  have c: "\<exists>st'. forE [0..<4] (dnl_quadflux user dx dy aH ab k j) s = Inr st'" for k j s
    by (rule forE_total) (rule dnl_quadflux_total)
  have row: "\<exists>st'. forE js
         (\<lambda>j st'. if j < 0 \<or> j \<ge> mx info - 1 \<or> k < 0 \<or> k \<ge> my info - 1 then Inr st'
                  else forE [0..<4] (dnl_quadflux user dx dy aH ab k j) st') s = Inr st'" for k js s
    by (rule forE_total) (simp add: c del: split_paired_Ex)
  show ?thesis
    unfolding dnl_flux_loop_def by (rule forE_total) (rule row)
qed

lemma dnl_residual_node_eq:
  "dnl_residual_node coeff dx dy M aq k j FF =
     FF(k := (FF k)(j := - M * dx * dy
        + coeff ! 0 * aq 0 k j + coeff ! 1 * aq 3 k j
        + coeff ! 2 * aq 1 k (j - 1) + coeff ! 3 * aq 0 k (j - 1)
        + coeff ! 4 * aq 2 (k - 1) (j - 1) + coeff ! 5 * aq 1 (k - 1) (j - 1)
        + coeff ! 6 * aq 3 (k - 1) j + coeff ! 7 * aq 2 (k - 1) j))"
  by (simp add: dnl_residual_node_def upt_0_8 je_def ke_def ce_def)

lemma dnl_residual_loop_boundary:
  assumes "boundary_node info k j"
  shows "dnl_residual_loop ext info user coeff dx dy aH ab aq FF k j = FF k j"
proof -
  let ?val = "\<lambda>k j. - (if verif user
                         then DomeCMB ext (real_of_int j * dx) (real_of_int k * dy) user
                         else M_CMBModel_h ext (cmb user) (ab k j + aH k j)) * dx * dy
        + coeff ! 0 * aq 0 k j + coeff ! 1 * aq 3 k j
        + coeff ! 2 * aq 1 k (j - 1) + coeff ! 3 * aq 0 k (j - 1)
        + coeff ! 4 * aq 2 (k - 1) (j - 1) + coeff ! 5 * aq 1 (k - 1) (j - 1)
        + coeff ! 6 * aq 3 (k - 1) j + coeff ! 7 * aq 2 (k - 1) j"
  have body: "(\<lambda>j F. if j = 0 \<or> j = mx info - 1 \<or> k = 0 \<or> k = my info - 1 then F
             else (let M = (if verif user
                         then DomeCMB ext (real_of_int j * dx) (real_of_int k * dy) user
                         else M_CMBModel_h ext (cmb user) (ab k j + aH k j))
                in dnl_residual_node coeff dx dy M aq k j F))
      = (\<lambda>j F. F(k := (F k)(j := (if boundary_node info k j then F k j else ?val k j))))" for k
    by (rule ext)+ (simp add: dnl_residual_node_eq boundary_node_def Let_def)
  show ?thesis
    unfolding dnl_residual_loop_def body
    using assms
    by (simp add: fold_grid [where h = "\<lambda>k j old. if boundary_node info k j then old else ?val k j"])
qed

lemma FormFunctionLocal_Inr:
  assumes st1: "stage_loop info user aHin (FF, Hcopy) = Inr st1"
  shows "\<exists>coeff dx dy ab aq. FormFunctionLocal ext info aHin FF user Hcopy b qquad m
           = Inr (dnl_residual_loop ext info user coeff dx dy (snd st1) ab aq (fst st1))"
proof -
  obtain st2 where st2: "dnl_flux_loop info user (L user / real_of_int (mx info - 1))
        (L user / real_of_int (my info - 1)) (snd st1)
        (if verif user then (\<lambda>k j. 0) else FormBedLocal ext info 1 b user) (qquad, m) = Inr st2"
    using dnl_flux_loop_total by blast
  show ?thesis
    unfolding FormFunctionLocal_def Let_def st1 sum.case st2 by blast
qed

lemma FormFunctionLocal_Inl:
  assumes "stage_loop info user aHin (FF, Hcopy) = Inl e"
  shows "FormFunctionLocal ext info aHin FF user Hcopy b qquad m = Inl e"
  using assms by (simp add: FormFunctionLocal_def Let_def)

text \<open>With the check on and the iterate \<open>-1\<close> everywhere on the test grid, the first loop
  stops at the first node it visits on the grid, \<open>(0,0)\<close>.\<close>

lemma first_node:
  "stage_loop test_info (dnl_test_user\<lparr>check_admissible := True\<rparr>) (const_field (- 1))
     (const_field 0, const_field 0) = Inl (ERR_non_admissible (- 1) 0 0)"
  by (simp add: stage_loop_def test_info_def upto.simps stage_node_def Let_def const_field_def
        dnl_test_user_def)

section \<open>The claims\<close>

subsection \<open>The implicit residual and the time derivative\<close>

text \<open>
  Claim C1 says that \<^verbatim>\<open>FormIFunctionLocal\<close> combines the spatial residual with a
  time-derivative term, so that its output depends on \<^verbatim>\<open>aHdot\<close>. The routine never reads
  \<^verbatim>\<open>aHdot\<close> (its comment \<^verbatim>\<open>FIXME add in correct here dHdt etc. to get F(t,H,dHdt)\<close> marks
  the place): for any two time-derivative fields the residual is the same.
\<close>

theorem FormIFunctionLocal_ignores_Hdot:
  "FormIFunctionLocal info t aH aHdot FF user am ab aq
   = FormIFunctionLocal info t aH aHdot' FF user am ab aq"
  by (simp add: FormIFunctionLocal_def)

subsection \<open>Sign of the flux\<close>

text \<open>
  Claim C5, as amended: for a thickness gradient with positive \<open>x\<close>-component, zero bed
  slope, \<open>delta > 0\<close>, \<open>eps\<close> in \<open>[0,1)\<close>, \<open>D0 > 0\<close> and \<open>Gamma > 0\<close>, and provided
  \<open>eps > 0\<close> or \<open>H \<noteq> 0\<close>, the \<open>x\<close>-flux of \<^verbatim>\<open>getflux\<close> is \<open>- D * gH.x\<close> with the
  diffusivity \<open>D\<close> of \<^verbatim>\<open>DCS\<close> strictly positive, so the flux is strictly negative.
\<close>

theorem getflux_downhill:
  assumes gH: "0 < Grad_x gH" and gb: "Grad_x gb = 0" "Grad_y gb = 0"
    and par: "0 < delta user" "0 \<le> eps user" "eps user < 1" "0 < D0 user" "0 < Gamma user"
    and nz: "0 < eps user \<or> H \<noteq> 0"
  shows "getflux gH gb H Hup True user
           = - DCS (getdelta gH gb user) H (n_ice user) (eps user) (D0 user) * Grad_x gH
         \<and> 0 < DCS (getdelta gH gb user) H (n_ice user) (eps user) (D0 user)
         \<and> getflux gH gb H Hup True user < 0"
proof -
  let ?d = "getdelta gH gb user"
  let ?P = "PetscPowReal (PetscAbsReal H) (n_ice user + 2)"
  let ?D = "DCS ?d H (n_ice user) (eps user) (D0 user)"
  have d: "0 < ?d" using par by (intro getdelta_pos) simp_all
  have eq: "getflux gH gb H Hup True user = - ?D * Grad_x gH"
    by (simp add: getflux_def Let_def getW_def gb)
  have P0: "0 \<le> ?P" by (rule PetscPowReal_nonneg) (simp add: PetscAbsReal_def)
  have t1: "0 \<le> (1 - eps user) * ?d * ?P" using par d P0 by simp
  have t2: "0 \<le> eps user * D0 user" using par by simp
  have "0 < (1 - eps user) * ?d * ?P \<or> 0 < eps user * D0 user"
  proof (cases "0 < eps user")
    case True
    then show ?thesis using par by simp
  next
    case False
    with nz have "H \<noteq> 0" by simp
    then have "0 < ?P" by (intro PetscPowReal_pos) (simp add: PetscAbsReal_def)
    then show ?thesis using par d by simp
  qed
  with t1 t2 have D: "0 < ?D" unfolding DCS_def by linarith
  from D gH have "?D * Grad_x gH > 0" by simp
  with eq D show ?thesis by simp
qed

text \<open>The theorem at \<open>gH = (1,0)\<close>, \<open>H = 2\<close> and the test context: \<open>D = 0.999 * 2 * 32 + 0.01\<close>.\<close>

theorem getflux_downhill_witness:
  "0 < Grad_x \<lparr>Grad_x = 1, Grad_y = 0\<rparr> \<and> 0 < delta test_user \<and> 0 \<le> eps test_user
   \<and> eps test_user < 1 \<and> 0 < D0 test_user \<and> 0 < Gamma test_user
   \<and> getflux \<lparr>Grad_x = 1, Grad_y = 0\<rparr> \<lparr>Grad_x = 0, Grad_y = 0\<rparr> 2 2 True test_user = - 31973 / 500
   \<and> getflux \<lparr>Grad_x = 1, Grad_y = 0\<rparr> \<lparr>Grad_x = 0, Grad_y = 0\<rparr> 2 2 True test_user < 0"
  using getflux_downhill [of "\<lparr>Grad_x = 1, Grad_y = 0\<rparr>" "\<lparr>Grad_x = 0, Grad_y = 0\<rparr>" test_user 2 2]
  by (simp add: test_user_def DCS_def getdelta_def PetscPowReal_def PetscAbsReal_def)

text \<open>
  Claim C5 as stated fails where the diffusivity degenerates: with \<open>eps = 0\<close> (allowed by
  \<open>eps\<close> in \<open>[0,1)\<close>) and \<open>H = 0\<close> the diffusivity and the flux are both zero.
\<close>

theorem getflux_degenerate_counterexample:
  "0 < Grad_x \<lparr>Grad_x = 1, Grad_y = 0\<rparr>
   \<and> 0 < delta (test_user\<lparr>eps := 0\<rparr>) \<and> 0 \<le> eps (test_user\<lparr>eps := 0\<rparr>)
   \<and> eps (test_user\<lparr>eps := 0\<rparr>) < 1
   \<and> 0 < D0 (test_user\<lparr>eps := 0\<rparr>) \<and> 0 < Gamma (test_user\<lparr>eps := 0\<rparr>)
   \<and> getflux \<lparr>Grad_x = 1, Grad_y = 0\<rparr> \<lparr>Grad_x = 0, Grad_y = 0\<rparr> 0 0 True (test_user\<lparr>eps := 0\<rparr>) = 0
   \<and> DCS (getdelta \<lparr>Grad_x = 1, Grad_y = 0\<rparr> \<lparr>Grad_x = 0, Grad_y = 0\<rparr> (test_user\<lparr>eps := 0\<rparr>)) 0 3 0 10 = 0"
  by (simp add: test_user_def getflux_def DCS_def getdelta_def getW_def PetscPowReal_def
        PetscAbsReal_def)

subsection \<open>Configuration\<close>

text \<open>
  Claim C9: \<^verbatim>\<open>SetFromOptionsAppCtx\<close> fails exactly when the Glen exponent in force (the
  option \<^verbatim>\<open>-n\<close>, else the default 3) is at most 1; \<open>n = 1\<close> and \<open>n = 0.5\<close> are rejected
  with the error that carries \<open>n\<close>, \<open>n = 3\<close> is accepted; and \<^verbatim>\<open>main\<close> returns that error
  before it reaches the grid.
\<close>

theorem SetFromOptionsAppCtx_rejects:
  "((\<exists>e. SetFromOptionsAppCtx opts user0 = Inl e) \<longleftrightarrow> PetscOptionsReal (opt_n opts) 3 \<le> 1)
   \<and> SetFromOptionsAppCtx (opts\<lparr>opt_n := Some 1\<rparr>) user0 = Inl (ERR_n_not_allowed 1)
   \<and> SetFromOptionsAppCtx (opts\<lparr>opt_n := Some 0.5\<rparr>) user0 = Inl (ERR_n_not_allowed 0.5)
   \<and> (\<exists>user. SetFromOptionsAppCtx (opts\<lparr>opt_n := Some 3\<rparr>) user0 = Inr user \<and> n_ice user = 3)
   \<and> main_setup (opts\<lparr>opt_n := Some 1\<rparr>) copts user0 info = Inl (ERR_n_not_allowed 1)
   \<and> main_setup (opts\<lparr>opt_n := Some 0.5\<rparr>) copts user0 info = Inl (ERR_n_not_allowed 0.5)
   \<and> ((\<exists>e. main_setup opts copts user0 info = Inl e) \<longleftrightarrow> PetscOptionsReal (opt_n opts) 3 \<le> 1)"
  by (simp add: SetFromOptionsAppCtx_def main_setup_def PetscOptionsReal_def Let_def
        split: option.splits sum.splits)

subsection \<open>The output pointers of \<^verbatim>\<open>SIAflux\<close>\<close>

text \<open>
  Claim C10: \<^verbatim>\<open>SIAflux\<close> guards only the store through \<^verbatim>\<open>D\<close>. With \<^verbatim>\<open>q\<close> null the
  test \<^verbatim>\<open>xdir && q\<close> fails for either \<open>xdir\<close> and the else branch stores through the null
  pointer; with \<^verbatim>\<open>q\<close> non-null the call returns, also when \<^verbatim>\<open>D\<close> is null, and then it
  changes the store at \<^verbatim>\<open>q\<close> only.
\<close>

theorem SIAflux_null_q:
  "SIAflux gH gb H Hup xdir D None user m = Inl SEGV_null_store
   \<and> (\<exists>m'. SIAflux gH gb H Hup xdir D (Some a) user m = Inr m')
   \<and> (\<exists>v. SIAflux gH gb H Hup xdir None (Some a) user m = Inr (m(a := v)))"
  by (cases xdir) (auto simp: SIAflux_def store_through_def Let_def)

subsection \<open>The source term and the bed in \<^verbatim>\<open>FormIFunctionLocal\<close>\<close>

text \<open>
  Claim C2 says that the CMB term is left to the right-hand-side routine, so that only the
  flux divergence enters the implicit residual. The routine computes it itself (under the
  comment \<^verbatim>\<open>FIXME: calculation of m by CMB model goes to RHS\<close>): at every owned node the
  residual with a CMB model \<open>cm\<close> is the residual with a zero source, minus
  \<open>M(b + H) * dx * dy\<close>.
\<close>

theorem FormIFunctionLocal_contains_cmb:
  assumes k: "ys info \<le> k" "k < ys info + ym info"
    and j: "xs info \<le> j" "j < xs info + xm info"
    and cm: "cmb user = Some cm"
  shows "FormIFunctionLocal info t aH aHdot FF user am ab aq k j
         = FormIFunctionLocal info t aH aHdot FF (user\<lparr>cmb := Some no_cmb\<rparr>) am ab aq k j
           - M_CMBModel cm (ab k j + aH k j)
             * (L user / real_of_int (mx info)) * (L user / real_of_int (my info))"
  using k j cm
  by (simp add: FormIFunctionLocal_owned [OF k j] Let_def ice_cmb_loop_at ice_quadflux_cmb M_no_cmb)

text \<open>On the test grid with thickness 1 over a flat bed: the flux divergence is 0, and the
  model \<open>M(s) = s\<close> makes the residual \<open>-1\<close>.\<close>

theorem FormIFunctionLocal_contains_cmb_witness:
  "ys test_info \<le> 1 \<and> 1 < ys test_info + ym test_info
   \<and> xs test_info \<le> 1 \<and> 1 < xs test_info + xm test_info
   \<and> cmb (test_user\<lparr>cmb := Some unit_cmb\<rparr>) = Some unit_cmb
   \<and> FormIFunctionLocal test_info 0 (const_field 1) (const_field 0) (const_field 0)
        (test_user\<lparr>cmb := Some no_cmb\<rparr>) (const_field 0) (const_field 0) zero_flux 1 1 = 0
   \<and> FormIFunctionLocal test_info 0 (const_field 1) (const_field 0) (const_field 0)
        (test_user\<lparr>cmb := Some unit_cmb\<rparr>) (const_field 0) (const_field 0) zero_flux 1 1 = - 1"
proof -
  have flat: "FormIFunctionLocal test_info 0 (const_field 1) (const_field 0) (const_field 0)
        (test_user\<lparr>cmb := Some no_cmb\<rparr>) (const_field 0) (const_field 0) zero_flux 1 1 = 0"
    by (subst FormIFunctionLocal_owned [OF test_owned(1-4)])
      (simp add: Let_def ice_cmb_loop_at ice_quadflux_flat test_owned M_no_cmb)
  have "M_CMBModel unit_cmb (const_field 0 1 1 + const_field 1 1 1) = 1"
    by (simp add: M_CMBModel_def unit_cmb_def const_field_def)
  with flat
    FormIFunctionLocal_contains_cmb [OF test_owned(1-4), of "test_user\<lparr>cmb := Some unit_cmb\<rparr>"
      unit_cmb 0 "const_field 1" "const_field 0" "const_field 0" "const_field 0" "const_field 0"
      zero_flux]
  show ?thesis
    by (simp add: test_owned test_sizes)
qed

text \<open>
  Claim C3 says that the assembler obtains the bed from the bed provider before it uses bed
  values and gradients. \<^verbatim>\<open>FormIFunctionLocal\<close> never assigns \<^verbatim>\<open>ab\<close>: the bed it reads is
  whatever the unassigned pointer refers to. Two calls with the same arguments whose
  unassigned \<^verbatim>\<open>ab\<close> holds a flat bed and the ridge bed give the residuals 0 and \<open>-4\<close> at
  the node \<open>k = 1\<close>, \<open>j = 2\<close>.
\<close>

theorem FormIFunctionLocal_bed_unset:
  "FormIFunctionLocal test_info 0 (const_field 1) (const_field 0) (const_field 0)
        (test_user\<lparr>cmb := Some no_cmb\<rparr>) (const_field 0) (const_field 0) zero_flux 1 2 = 0
   \<and> FormIFunctionLocal test_info 0 (const_field 1) (const_field 0) (const_field 0)
        (test_user\<lparr>cmb := Some no_cmb\<rparr>) (const_field 0) ridge_bed zero_flux 1 2 = - 4"
proof -
  have own: "ys test_info \<le> 1" "1 < ys test_info + ym test_info"
    "xs test_info \<le> 2" "2 < xs test_info + xm test_info"
    by (rule test_owned)+
  have a: "FormIFunctionLocal test_info 0 (const_field 1) (const_field 0) (const_field 0)
        (test_user\<lparr>cmb := Some no_cmb\<rparr>) (const_field 0) (const_field 0) zero_flux 1 2 = 0"
    by (subst FormIFunctionLocal_owned [OF own])
      (simp add: Let_def ice_cmb_loop_at ice_quadflux_flat own M_no_cmb)
  have b: "FormIFunctionLocal test_info 0 (const_field 1) (const_field 0) (const_field 0)
        (test_user\<lparr>cmb := Some no_cmb\<rparr>) (const_field 0) ridge_bed zero_flux 1 2 = - 4"
    by (subst FormIFunctionLocal_owned [OF own])
      (simp add: Let_def ice_cmb_loop_at ice_quadflux_ridge test_sizes own M_no_cmb
         xdire_def ridge_bed_def)
  from a b show ?thesis by simp
qed

subsection \<open>A uniform thickness\<close>

text \<open>
  Claim C4 says that for a constant thickness \<open>H0 \<ge> 0\<close> on a periodic grid with zero
  CMB the residual is zero at every node. The residual contains the flux \<open>W * H\<^sup>5\<close> driven by
  the bed slope, and \<^verbatim>\<open>FormIFunctionLocal\<close> takes the bed from \<^verbatim>\<open>ab\<close>, which it never
  assigns: whether the residual of a uniform thickness vanishes depends on memory that no
  caller controls. On the test grid, with thickness 1 and a zero CMB, whatever the other
  unassigned arrays, the given \<^verbatim>\<open>FF\<close> and \<^verbatim>\<open>aHdot\<close> hold, the residual at the node
  \<open>(1,1)\<close> is 0 if that memory holds a flat bed and 4 if it holds the ridge bed.
\<close>

theorem uniform_field_residual_unset_bed:
  "FormIFunctionLocal test_info 0 (const_field 1) aHdot FF
        (test_user\<lparr>cmb := Some no_cmb\<rparr>) am (const_field 0) aq 1 1 = 0
   \<and> FormIFunctionLocal test_info 0 (const_field 1) aHdot FF
        (test_user\<lparr>cmb := Some no_cmb\<rparr>) am ridge_bed aq 1 1 = 4"
proof -
  have flat: "FormIFunctionLocal test_info 0 (const_field 1) aHdot FF
        (test_user\<lparr>cmb := Some no_cmb\<rparr>) am (const_field 0) aq 1 1 = 0"
    by (subst FormIFunctionLocal_owned [OF test_owned(1-4)])
      (simp add: Let_def ice_cmb_loop_at ice_quadflux_flat test_owned M_no_cmb)
  have ridge: "FormIFunctionLocal test_info 0 (const_field 1) aHdot FF
        (test_user\<lparr>cmb := Some no_cmb\<rparr>) am ridge_bed aq 1 1 = 4"
    by (subst FormIFunctionLocal_owned [OF test_owned(1-4)])
      (simp add: Let_def ice_cmb_loop_at ice_quadflux_ridge test_sizes test_owned M_no_cmb
         xdire_def ridge_bed_def)
  from flat ridge show ?thesis by simp
qed

subsection \<open>The Dirichlet boundary in \<^verbatim>\<open>FormFunctionLocal\<close>\<close>

text \<open>
  Claim C6: when the admissibility check does not fire (it is off, or no value it examines
  is negative), \<^verbatim>\<open>FormFunctionLocal\<close> returns a residual whose value at every owned
  boundary node is the iterate there minus the boundary value 0, whatever the other values
  of the iterate are, and the staged copy \<^verbatim>\<open>aH\<close> that the first loop builds holds 0 at
  every boundary node the loop visits.
\<close>

theorem FormFunctionLocal_boundary:
  assumes adm: "\<And>k' j'. check_admissible user \<Longrightarrow> visited_node info k' j' \<Longrightarrow> on_grid info k' j'
                   \<Longrightarrow> 0 \<le> aHin k' j'"
    and node: "on_grid info k j" "boundary_node info k j" "owned_node info k j"
    and ghost: "on_grid info k' j'" "boundary_node info k' j'" "visited_node info k' j'"
  shows "\<exists>FF' FF1 aH. FormFunctionLocal ext info aHin FF user Hcopy b qquad m = Inr FF'
           \<and> FF' k j = aHin k j - 0
           \<and> stage_loop info user aHin (FF, Hcopy) = Inr (FF1, aH)
           \<and> aH k' j' = 0"
proof -
  from stage_loop_passes [of user info aHin "(FF, Hcopy)"] adm
  obtain st1 where st1: "stage_loop info user aHin (FF, Hcopy) = Inr st1" by blast
  from FormFunctionLocal_Inr [OF st1]
  obtain coeff dx dy ab aq where res:
    "FormFunctionLocal ext info aHin FF user Hcopy b qquad m
       = Inr (dnl_residual_loop ext info user coeff dx dy (snd st1) ab aq (fst st1))"
    by blast
  have vis: "visited_node info k j"
    using node(3) by (simp add: owned_node_def visited_node_def)
  have "dnl_residual_loop ext info user coeff dx dy (snd st1) ab aq (fst st1) k j = fst st1 k j"
    by (rule dnl_residual_loop_boundary) (rule node)
  also have "\<dots> = aHin k j"
    using node vis by (simp add: stage_loop_Inr(1) [OF st1] stage_FF_def)
  finally have FF: "dnl_residual_loop ext info user coeff dx dy (snd st1) ab aq (fst st1) k j
      = aHin k j - 0" by simp
  have aH: "snd st1 k' j' = 0"
    using ghost by (simp add: stage_loop_Inr(2) [OF st1] stage_aH_def)
  have "stage_loop info user aHin (FF, Hcopy) = Inr (fst st1, snd st1)"
    using st1 by simp
  with res FF aH show ?thesis by blast
qed

text \<open>On the test grid with the iterate \<open>10 k + j\<close>: the residual at the boundary node
  \<open>(0,1)\<close> is 1, and the staged copy is 0 at the corner \<open>(0,0)\<close>.\<close>

theorem FormFunctionLocal_boundary_witness:
  "\<not> check_admissible dnl_test_user
   \<and> on_grid test_info 0 1 \<and> boundary_node test_info 0 1 \<and> owned_node test_info 0 1
   \<and> on_grid test_info 0 0 \<and> boundary_node test_info 0 0 \<and> visited_node test_info 0 0
   \<and> (\<exists>FF' FF1 aH.
         FormFunctionLocal test_ext test_info probe_field (const_field 0) dnl_test_user
           (const_field 0) (const_field 0) zero_qquad zero_store = Inr FF'
         \<and> FF' 0 1 = 1
         \<and> stage_loop test_info dnl_test_user probe_field (const_field 0, const_field 0) = Inr (FF1, aH)
         \<and> aH 0 0 = 0)"
  using FormFunctionLocal_boundary [of dnl_test_user test_info probe_field 0 1 0 0 test_ext
      "const_field 0" "const_field 0" "const_field 0" zero_qquad zero_store]
  by (simp add: dnl_test_user_def test_info_def probe_field_def on_grid_def boundary_node_def
        owned_node_def visited_node_def)

subsection \<open>Admissibility\<close>

text \<open>
  Claim C8: if some value the first loop examines (a node on the grid, in the owned range
  or the layer around it) is negative, then with \<^verbatim>\<open>check_admissible\<close> on the evaluation
  returns the error that carries such a value and its indices \<open>j\<close>, \<open>k\<close>; with the check
  off it returns a residual. Every power of the thickness is the real power of its absolute
  value: the diffusivity of \<^verbatim>\<open>DCS\<close> is \<open>(1 - eps) * sigma * \<bar>H\<bar>\<^bsup>n+2\<^esup> + eps * D0\<close>, the
  flux that \<^verbatim>\<open>SIAflux\<close> stores is \<open>- D * gH - sigma * gb * \<bar>Hup\<bar>\<^bsup>n+2\<^esup>\<close> in the direction asked
  for, and neither changes when \<open>H\<close> and \<open>Hup\<close> are replaced by their absolute values
  (\<^verbatim>\<open>pow\<close> itself does change: \<open>PetscPowReal_negative_base\<close>).
\<close>

theorem FormFunctionLocal_admissibility:
  assumes neg: "visited_node info kn jn" "on_grid info kn jn" "aHin kn jn < 0"
  shows "(\<exists>k j. visited_node info k j \<and> on_grid info k j \<and> aHin k j < 0
            \<and> FormFunctionLocal ext info aHin FF (user\<lparr>check_admissible := True\<rparr>) Hcopy b qquad m
                = Inl (ERR_non_admissible (aHin k j) j k))
         \<and> (\<exists>FF'. FormFunctionLocal ext info aHin FF (user\<lparr>check_admissible := False\<rparr>) Hcopy b qquad m
                = Inr FF')
         \<and> dnl_DCS sig H user
             = (1 - eps user) * sig * (if n_ice user + 2 = 0 then 1 else \<bar>H\<bar> powr (n_ice user + 2))
               + eps user * D0 user
         \<and> SIAflux gH gb H Hup xdir D (Some a) user m'
             = Inr ((case D of None \<Rightarrow> m' | Some d \<Rightarrow> m'(d := dnl_DCS (sigma gH gb user) H user))
                    (a := - dnl_DCS (sigma gH gb user) H user * (if xdir then Grad_x gH else Grad_y gH)
                          + - sigma gH gb user * (if xdir then Grad_x gb else Grad_y gb)
                            * (if n_ice user + 2 = 0 then 1 else \<bar>Hup\<bar> powr (n_ice user + 2))))
         \<and> dnl_DCS sig H user = dnl_DCS sig (PetscAbsReal H) user
         \<and> SIAflux gH gb H Hup xdir D q user m'
             = SIAflux gH gb (PetscAbsReal H) (PetscAbsReal Hup) xdir D q user m'"
proof -
  let ?on = "user\<lparr>check_admissible := True\<rparr>"
  let ?off = "user\<lparr>check_admissible := False\<rparr>"
  from stage_loop_fails [of ?on info kn jn aHin "(FF, Hcopy)"] neg
  obtain e where e: "stage_loop info ?on aHin (FF, Hcopy) = Inl e" by auto
  from stage_loop_Inl [OF e]
  obtain k j where kj: "visited_node info k j" "on_grid info k j" "aHin k j < 0"
    "e = ERR_non_admissible (aHin k j) j k" by blast
  have a: "FormFunctionLocal ext info aHin FF ?on Hcopy b qquad m
            = Inl (ERR_non_admissible (aHin k j) j k)"
    using FormFunctionLocal_Inl [OF e] kj(4) by simp
  obtain st1 where st1: "stage_loop info ?off aHin (FF, Hcopy) = Inr st1"
    using stage_loop_passes [of ?off info aHin "(FF, Hcopy)"] by auto
  from FormFunctionLocal_Inr [OF st1]
  have b: "\<exists>FF'. FormFunctionLocal ext info aHin FF ?off Hcopy b qquad m = Inr FF'"
    by blast
  have val: "dnl_DCS s0 H0 user
             = (1 - eps user) * s0 * (if n_ice user + 2 = 0 then 1 else \<bar>H0\<bar> powr (n_ice user + 2))
               + eps user * D0 user" for s0 H0
    by (simp add: dnl_DCS_def PetscAbsReal_def PetscPowReal_abs)
  have flux: "SIAflux gH gb H Hup xdir D (Some a) user m'
             = Inr ((case D of None \<Rightarrow> m' | Some d \<Rightarrow> m'(d := dnl_DCS (sigma gH gb user) H user))
                    (a := - dnl_DCS (sigma gH gb user) H user * (if xdir then Grad_x gH else Grad_y gH)
                          + - sigma gH gb user * (if xdir then Grad_x gb else Grad_y gb)
                            * (if n_ice user + 2 = 0 then 1 else \<bar>Hup\<bar> powr (n_ice user + 2))))"
    by (simp add: SIAflux_def store_through_def W_def Let_def PetscAbsReal_def PetscPowReal_abs)
  have c: "dnl_DCS sig H user = dnl_DCS sig (PetscAbsReal H) user"
    by (simp add: dnl_DCS_def PetscAbsReal_def)
  have d: "SIAflux gH gb H Hup xdir D q user m'
             = SIAflux gH gb (PetscAbsReal H) (PetscAbsReal Hup) xdir D q user m'"
    by (auto simp: SIAflux_def dnl_DCS_def PetscAbsReal_def Let_def)
  from a kj have A: "\<exists>k j. visited_node info k j \<and> on_grid info k j \<and> aHin k j < 0
            \<and> FormFunctionLocal ext info aHin FF ?on Hcopy b qquad m
                = Inl (ERR_non_admissible (aHin k j) j k)"
    by blast
  show ?thesis
    using A b val [of sig H] flux c d by (intro conjI)
qed

text \<open>
  On the test grid with the iterate \<open>-1\<close> everywhere: the error names the node \<open>(0,0)\<close>;
  with the check off a residual is returned. At \<open>H = -2\<close>, \<open>n = 3\<close> the diffusivity is
  \<open>0.999 * 32 + 0.01\<close>, the one of \<open>H = 2\<close>, although \<open>(-2)\<^sup>5 = -32\<close>.
\<close>

theorem FormFunctionLocal_admissibility_witness:
  "visited_node test_info 0 0 \<and> on_grid test_info 0 0 \<and> const_field (- 1) 0 0 < 0
   \<and> FormFunctionLocal test_ext test_info (const_field (- 1)) (const_field 0)
               (dnl_test_user\<lparr>check_admissible := True\<rparr>)
               (const_field 0) (const_field 0) zero_qquad zero_store
             = Inl (ERR_non_admissible (- 1) 0 0)
   \<and> (\<exists>FF'. FormFunctionLocal test_ext test_info (const_field (- 1)) (const_field 0)
               (dnl_test_user\<lparr>check_admissible := False\<rparr>)
               (const_field 0) (const_field 0) zero_qquad zero_store
             = Inr FF')
   \<and> dnl_DCS 1 (- 2) dnl_test_user = 15989 / 500
   \<and> dnl_DCS 1 2 dnl_test_user = 15989 / 500
   \<and> PetscPowReal (- 2) (n_ice dnl_test_user + 2) = - 32
   \<and> SIAflux \<lparr>Grad_x = 1, Grad_y = 0\<rparr> \<lparr>Grad_x = 0, Grad_y = 0\<rparr> (- 2) (- 2) True None (Some 0)
         dnl_test_user zero_store
       = Inr (zero_store(0 := - 31973 / 500))"
proof -
  note inst = FormFunctionLocal_admissibility [where info = test_info and kn = 0 and jn = 0
      and aHin = "const_field (- 1)" and ext = test_ext and FF = "const_field 0"
      and user = dnl_test_user and Hcopy = "const_field 0" and b = "const_field 0"
      and qquad = zero_qquad and m = zero_store and sig = 1 and H = "- 2"
      and gH = "\<lparr>Grad_x = 1, Grad_y = 0\<rparr>" and gb = "\<lparr>Grad_x = 0, Grad_y = 0\<rparr>"
      and Hup = "- 2" and xdir = True and D = None and a = 0 and q = "Some 0"
      and m' = zero_store]
  have neg: "visited_node test_info 0 0" "on_grid test_info 0 0" "const_field (- 1) 0 0 < 0"
    by (simp_all add: test_info_def const_field_def on_grid_def visited_node_def)
  have par: "n_ice dnl_test_user + 2 = 5" "eps dnl_test_user = 1 / 1000" "D0 dnl_test_user = 10"
    "sigma \<lparr>Grad_x = 1, Grad_y = 0\<rparr> \<lparr>Grad_x = 0, Grad_y = 0\<rparr> dnl_test_user = 2"
    by (simp_all add: dnl_test_user_def sigma_def PetscPowReal_def)
  have vals: "dnl_DCS 1 2 dnl_test_user = 15989 / 500" "dnl_DCS 2 (- 2) dnl_test_user = 31973 / 500"
    by (simp_all add: dnl_DCS_def dnl_test_user_def PetscPowReal_def PetscAbsReal_def)
  from inst [OF neg] par neg vals
    FormFunctionLocal_Inl [OF first_node, of test_ext "const_field 0" zero_qquad zero_store]
    PetscPowReal_negative_base(1)
  show ?thesis
    by simp
qed

subsection \<open>Upwinding\<close>

text \<open>
  Claim C7: for \<open>lambda\<close> in \<open>[0,1]\<close> and each of the four quadrature points, the
  coordinate of the upwind point in the direction of the flux lies between
  \<open>(1 - lambda)/2\<close> and \<open>(1 + lambda)/2\<close>; it is \<open>(1 - lambda)/2\<close> when the bed slope
  in that direction is not positive and \<open>(1 + lambda)/2\<close> otherwise, and the other
  coordinate is the one of the quadrature point. In both files \<^verbatim>\<open>Hup\<close> is the thickness
  interpolated at that point. For \<open>lambda = 0\<close> it is the thickness at the quadrature
  point itself, whose coordinate in the direction of the flux is 0.5; for \<open>lambda = 1\<close>
  the coordinate is 0 or 1 by the sign of the slope.
\<close>

theorem upwind_coordinate:
  assumes lam: "0 \<le> lambda user" "lambda user \<le> 1" and c: "c < 4"
  shows "(1 - lambda user) / 2
           \<le> (if xdire ! c then fst (upwind_point ((1 - lambda user) * 0.5) ((1 + lambda user) * 0.5) c gb)
               else snd (upwind_point ((1 - lambda user) * 0.5) ((1 + lambda user) * 0.5) c gb))
       \<and> (if xdire ! c then fst (upwind_point ((1 - lambda user) * 0.5) ((1 + lambda user) * 0.5) c gb)
               else snd (upwind_point ((1 - lambda user) * 0.5) ((1 + lambda user) * 0.5) c gb))
           \<le> (1 + lambda user) / 2
       \<and> (if xdire ! c then fst (upwind_point ((1 - lambda user) * 0.5) ((1 + lambda user) * 0.5) c gb)
               else snd (upwind_point ((1 - lambda user) * 0.5) ((1 + lambda user) * 0.5) c gb))
           = (if (if xdire ! c then Grad_x gb else Grad_y gb) \<le> 0
              then (1 - lambda user) / 2 else (1 + lambda user) / 2)
       \<and> (if xdire ! c then snd (upwind_point ((1 - lambda user) * 0.5) ((1 + lambda user) * 0.5) c gb)
               else fst (upwind_point ((1 - lambda user) * 0.5) ((1 + lambda user) * 0.5) c gb))
           = (if xdire ! c then locy ! c else locx ! c)
       \<and> ice_Hup user dx dy aH ab k j c
           = fieldatpt j k
               (fst (upwind_point ((1 - lambda user) * 0.5) ((1 + lambda user) * 0.5) c
                      (gradfatpt j k (locx ! c) (locy ! c) dx dy ab)))
               (snd (upwind_point ((1 - lambda user) * 0.5) ((1 + lambda user) * 0.5) c
                      (gradfatpt j k (locx ! c) (locy ! c) dx dy ab))) aH
       \<and> dnl_Hup user dx dy aH ab k j c
           = fieldatptArray j k
               (fst (upwind_point ((1 - lambda user) * 0.5) ((1 + lambda user) * 0.5) c
                      (gradfatptArray j k (locx ! c) (locy ! c) dx dy ab)))
               (snd (upwind_point ((1 - lambda user) * 0.5) ((1 + lambda user) * 0.5) c
                      (gradfatptArray j k (locx ! c) (locy ! c) dx dy ab))) aH
       \<and> ice_Hup (user\<lparr>lambda := 0\<rparr>) dx dy aH ab k j c = fieldatpt j k (locx ! c) (locy ! c) aH
       \<and> dnl_Hup (user\<lparr>lambda := 0\<rparr>) dx dy aH ab k j c = fieldatptArray j k (locx ! c) (locy ! c) aH
       \<and> (if xdire ! c then locx ! c else locy ! c) = 0.5
       \<and> (if xdire ! c then fst (upwind_point ((1 - 1) * 0.5) ((1 + 1) * 0.5) c gb)
               else snd (upwind_point ((1 - 1) * 0.5) ((1 + 1) * 0.5) c gb))
           = (if (if xdire ! c then Grad_x gb else Grad_y gb) \<le> 0 then 0 else 1)"
proof -
  from c consider "c = 0" | "c = 1" | "c = 2" | "c = 3" by (auto simp: lt4)
  then show ?thesis
  proof cases
    case 1
    with lam show ?thesis
      by (simp add: upwind_point_def ice_Hup_def dnl_Hup_def xdire_def locx_def locy_def Let_def)
  next
    case 2
    with lam show ?thesis
      by (simp add: upwind_point_def ice_Hup_def dnl_Hup_def xdire_def locx_def locy_def Let_def)
  next
    case 3
    with lam show ?thesis
      by (simp add: upwind_point_def ice_Hup_def dnl_Hup_def xdire_def locx_def locy_def Let_def)
  next
    case 4
    with lam show ?thesis
      by (simp add: upwind_point_def ice_Hup_def dnl_Hup_def xdire_def locx_def locy_def Let_def)
  qed
qed

theorem upwind_coordinate_witness:
  "0 \<le> lambda test_user \<and> lambda test_user \<le> 1 \<and> (0::nat) < 4
   \<and> upwind_point ((1 - lambda test_user) * 0.5) ((1 + lambda test_user) * 0.5) 0
         \<lparr>Grad_x = 1, Grad_y = 0\<rparr> = (5 / 8, 1 / 4)
   \<and> ice_Hup test_user 1 1 probe_field ridge_bed 1 1 0 = 111 / 8
   \<and> ice_Hup (test_user\<lparr>lambda := 0\<rparr>) 1 1 probe_field ridge_bed 1 1 0 = 14"
  using upwind_coordinate [of test_user 0 "\<lparr>Grad_x = 1, Grad_y = 0\<rparr>" 1 1 probe_field ridge_bed 1 1]
  by (simp add: test_user_def upwind_point_def xdire_def locx_def locy_def fieldatpt_def
        gradfatpt_def gx_def gy_def probe_field_def ridge_bed_def)

end
